theory Spec2Isabelle
  imports Main "HOL-Library.Word" "HOL-Library.AList"
begin

unbundle bit_operations_syntax

section \<open>Instance lock manager (src/server/game/Instances/InstanceLockMgr.cpp)\<close>

subsection \<open>Catalog entries and the collaborators the manager reads\<close>

type_synonym uint8 = "8 word"
type_synonym uint32 = "32 word"
type_synonym uint64 = "64 word"

text \<open>Player guids are always built from a 64-bit counter in this file
  (\<^verbatim>\<open>ObjectGuid::Create<HighGuid::Player>(fields[0].GetUInt64())\<close>), so the counter is the guid.\<close>
type_synonym ObjectGuid = uint64

text \<open>\<^verbatim>\<open>Difficulty\<close> is an 8-bit enumeration (\<^verbatim>\<open>Difficulty(fields[4].GetUInt8())\<close>).\<close>
type_synonym Difficulty = uint8

text \<open>\<^verbatim>\<open>InstanceResetTimePoint\<close> is a \<^verbatim>\<open>std::chrono::system_clock::time_point\<close>: a signed count
  of clock ticks since the epoch. Overflow of the 64-bit count is not reachable before the
  year 2262 and is not modelled.\<close>
type_synonym InstanceResetTimePoint = int

definition system_clock_ticks_per_second :: int where
  "system_clock_ticks_per_second = 1000000000"

definition Seconds :: "int \<Rightarrow> int" where
  "Seconds n = n * system_clock_ticks_per_second"

definition from_time_t :: "int \<Rightarrow> InstanceResetTimePoint" where
  "from_time_t t = t * system_clock_ticks_per_second"

datatype MapDifficultyResetInterval =
  MAP_DIFFICULTY_RESET_ANYTIME | MAP_DIFFICULTY_RESET_DAILY | MAP_DIFFICULTY_RESET_WEEKLY

text \<open>The DB2 structures are declared outside this file. The member functions the manager
  calls on them (\<^verbatim>\<open>IsFlexLocking()\<close>, \<^verbatim>\<open>HasResetSchedule()\<close>, \<^verbatim>\<open>IsUsingEncounterLocks()\<close>,
  \<^verbatim>\<open>GetRaidDuration()\<close>) are taken as independent fields of the entry, so every result below
  holds for whatever these functions compute.\<close>

record MapEntry =
  ID :: uint32
  IsFlexLocking :: bool

record MapDifficultyEntry =
  MapID :: uint32
  LockID :: uint32
  DifficultyID :: uint32
  ResetInterval :: MapDifficultyResetInterval
  HasResetSchedule :: bool
  IsUsingEncounterLocks :: bool
  GetRaidDuration :: uint32

record MapDb2Entries =
  Map :: MapEntry
  MapDifficulty :: MapDifficultyEntry

text \<open>The C \<^verbatim>\<open>struct tm\<close> of broken-down local time.\<close>
record tm =
  tm_sec :: int
  tm_min :: int
  tm_hour :: int
  tm_mday :: int
  tm_mon :: int
  tm_year :: int
  tm_wday :: int
  tm_yday :: int
  tm_isdst :: int

text \<open>Everything the manager reads from its collaborators: the world clock
  (\<^verbatim>\<open>GameTime::GetSystemTime\<close>, \<^verbatim>\<open>GameTime::GetDateAndTime\<close>), the configuration store, the C
  library's \<^verbatim>\<open>mktime\<close>, the two catalog stores and the database's string escaping.\<close>
record world =
  GetSystemTime :: InstanceResetTimePoint
  GetDateAndTime :: tm
  config :: "string \<rightharpoonup> int"
  mktime :: "tm \<Rightarrow> int"
  sMapStore :: "uint32 \<rightharpoonup> MapEntry"
  GetMapDifficultyData :: "uint32 \<Rightarrow> Difficulty \<rightharpoonup> MapDifficultyEntry"
  EscapeString :: "string \<Rightarrow> string"

definition GetIntDefault :: "world \<Rightarrow> string \<Rightarrow> int \<Rightarrow> int" where
  "GetIntDefault w name def = (case config w name of None \<Rightarrow> def | Some v \<Rightarrow> v)"

text \<open>A failed \<^verbatim>\<open>ASSERT\<close> aborts the process; it is the only error of this file.\<close>
datatype abort = AssertionFailed

text \<open>\<^verbatim>\<open>MapDb2Entries::MapDb2Entries(uint32 mapId, Difficulty difficulty)\<close>: both lookups are
  asserted.\<close>
definition MapDb2Entries_ctor :: "world \<Rightarrow> uint32 \<Rightarrow> Difficulty \<Rightarrow> abort + MapDb2Entries" where
  "MapDb2Entries_ctor w mapId difficulty =
     (case sMapStore w mapId of
        None \<Rightarrow> Inl AssertionFailed
      | Some m \<Rightarrow>
          (case GetMapDifficultyData w mapId difficulty of
             None \<Rightarrow> Inl AssertionFailed
           | Some md \<Rightarrow> Inr \<lparr>Map = m, MapDifficulty = md\<rparr>))"

type_synonym InstanceLockKey = "uint32 \<times> uint32"

definition GetKey :: "MapDb2Entries \<Rightarrow> InstanceLockKey" where
  "GetKey entries = (MapID (MapDifficulty entries), LockID (MapDifficulty entries))"

definition IsInstanceIdBound :: "MapDb2Entries \<Rightarrow> bool" where
  "IsInstanceIdBound entries \<longleftrightarrow>
     \<not> IsFlexLocking (Map entries) \<and> \<not> IsUsingEncounterLocks (MapDifficulty entries)"

subsection \<open>Reset schedule\<close>

text \<open>The broken-down time \<^verbatim>\<open>GetNextResetTime\<close> hands to \<^verbatim>\<open>mktime\<close>. The fields are C
  \<^verbatim>\<open>int\<close>s; with a day of the month of at most 31 and a week day of at most 6 the additions
  cannot overflow.\<close>
definition GetNextResetTime_dateTime :: "world \<Rightarrow> MapDb2Entries \<Rightarrow> tm" where
  "GetNextResetTime_dateTime w entries =
     (let dateTime = GetDateAndTime w;
          dateTime = dateTime\<lparr>tm_sec := 0\<rparr>;
          dateTime = dateTime\<lparr>tm_min := 0\<rparr>;
          resetHour = GetIntDefault w ''ResetSchedule.DailyHour'' 9
      in case ResetInterval (MapDifficulty entries) of
           MAP_DIFFICULTY_RESET_DAILY \<Rightarrow>
             (let dateTime =
                    (if tm_hour dateTime \<ge> resetHour
                     then dateTime\<lparr>tm_mday := tm_mday dateTime + 1\<rparr> else dateTime)
              in dateTime\<lparr>tm_hour := resetHour\<rparr>)
         | MAP_DIFFICULTY_RESET_WEEKLY \<Rightarrow>
             (let resetDay = GetIntDefault w ''ResetSchedule.WeeklyDay'' 2;
                  daysAdjust = resetDay - tm_wday dateTime;
                  daysAdjust =
                    (if tm_wday dateTime > resetDay
                        \<or> (tm_wday dateTime = resetDay \<and> tm_hour dateTime \<ge> resetHour)
                     then daysAdjust + 7 else daysAdjust);
                  dateTime = dateTime\<lparr>tm_hour := resetHour\<rparr>
              in dateTime\<lparr>tm_mday := tm_mday dateTime + daysAdjust\<rparr>)
         | MAP_DIFFICULTY_RESET_ANYTIME \<Rightarrow> dateTime)"

definition GetNextResetTime :: "world \<Rightarrow> MapDb2Entries \<Rightarrow> InstanceResetTimePoint" where
  "GetNextResetTime w entries = from_time_t (mktime w (GetNextResetTime_dateTime w entries))"

text \<open>The order the reset schedule's "strictly after now" refers to: seconds of local
  broken-down time counted from the start of the month, for two times of the same month and
  year. It is used in statements only.\<close>
definition spec_local_seconds :: "tm \<Rightarrow> int" where
  "spec_local_seconds t = ((tm_mday t * 24 + tm_hour t) * 60 + tm_min t) * 60 + tm_sec t"

text \<open>The schedule's "the day \<open>days\<close> days from today, at \<open>hour\<close> o'clock sharp", before
  \<^verbatim>\<open>mktime\<close> normalises it. Used in statements only.\<close>
definition spec_day_at_hour :: "tm \<Rightarrow> int \<Rightarrow> int \<Rightarrow> tm" where
  "spec_day_at_hour now days hour =
     now\<lparr>tm_sec := 0, tm_min := 0, tm_hour := hour, tm_mday := tm_mday now + days\<rparr>"

subsection \<open>Bindings\<close>

text \<open>Modelled from the spec: the class declarations of InstanceLockMgr.h are missing. A new
  \<^verbatim>\<open>InstanceLockData\<close> has empty \<open>Data\<close> and zero masks, a new \<^verbatim>\<open>SharedInstanceLockData\<close>
  has \<open>InstanceId = 0\<close> besides (spec 4.5.1), and \<^verbatim>\<open>GetData()\<close> of a binding is the binding's
  own progress data (spec 3 and 4.5.2: the player's view).\<close>
record InstanceLockData =
  Data :: string
  CompletedEncountersMask :: uint32
  EntranceWorldSafeLocId :: uint32

definition InstanceLockData_ctor :: InstanceLockData where
  "InstanceLockData_ctor = \<lparr>Data = [], CompletedEncountersMask = 0, EntranceWorldSafeLocId = 0\<rparr>"

record SharedInstanceLockData = InstanceLockData +
  InstanceId :: uint32

definition SharedInstanceLockData_ctor :: SharedInstanceLockData where
  "SharedInstanceLockData_ctor =
     \<lparr>Data = [], CompletedEncountersMask = 0, EntranceWorldSafeLocId = 0, InstanceId = 0\<rparr>"

text \<open>A \<^verbatim>\<open>std::shared_ptr<SharedInstanceLockData>\<close> is the address of its control block.\<close>
type_synonym addr = nat

text \<open>An \<^verbatim>\<open>InstanceLock\<close>; \<open>sharedData = Some a\<close> makes it a \<^verbatim>\<open>SharedInstanceLock\<close> that owns
  one strong reference to the record at \<open>a\<close>.\<close>
record InstanceLock =
  mapId :: uint32
  difficultyId :: Difficulty
  instanceId :: uint32
  expiryTime :: InstanceResetTimePoint
  extended :: bool
  data :: InstanceLockData
  sharedData :: "addr option"

definition InstanceLock_ctor ::
  "uint32 \<Rightarrow> Difficulty \<Rightarrow> InstanceResetTimePoint \<Rightarrow> uint32 \<Rightarrow> InstanceLock" where
  "InstanceLock_ctor mapId' difficultyId' expiryTime' instanceId' =
     \<lparr>mapId = mapId', difficultyId = difficultyId', instanceId = instanceId',
      expiryTime = expiryTime', extended = False, data = InstanceLockData_ctor,
      sharedData = None\<rparr>"

definition SharedInstanceLock_ctor ::
  "uint32 \<Rightarrow> Difficulty \<Rightarrow> InstanceResetTimePoint \<Rightarrow> uint32 \<Rightarrow> addr \<Rightarrow> InstanceLock" where
  "SharedInstanceLock_ctor mapId' difficultyId' expiryTime' instanceId' sharedData' =
     (InstanceLock_ctor mapId' difficultyId' expiryTime' instanceId')\<lparr>sharedData := Some sharedData'\<rparr>"

definition IsExpired :: "world \<Rightarrow> InstanceLock \<Rightarrow> bool" where
  "IsExpired w l \<longleftrightarrow> expiryTime l < GetSystemTime w"

definition GetEffectiveExpiryTime :: "world \<Rightarrow> InstanceLock \<Rightarrow> abort + InstanceResetTimePoint" where
  "GetEffectiveExpiryTime w l =
     (if \<not> extended l then Inr (expiryTime l)
      else case MapDb2Entries_ctor w (mapId l) (difficultyId l) of
             Inl e \<Rightarrow> Inl e
           | Inr entries \<Rightarrow>
               if IsExpired w l then Inr (GetNextResetTime w entries)
               else Inr (expiryTime l + Seconds (uint (GetRaidDuration (MapDifficulty entries)))))"

subsection \<open>Manager state\<close>

text \<open>The statements the manager emits, one constructor per format string:
  \<^item> \<^verbatim>\<open>DELETE FROM instance2 WHERE instanceId=%u\<close>
  \<^item> \<^verbatim>\<open>DELETE FROM character_instance_lock WHERE instanceId = %u\<close>
  \<^item> \<^verbatim>\<open>DELETE FROM character_instance_lock WHERE guid=... AND mapId=%u AND lockId=%d\<close>
  \<^item> \<^verbatim>\<open>INSERT INTO character_instance_lock (guid, mapId, lockId, instanceId, difficulty, data,
    completedEncountersMask, entranceWorldSafeLocId, expiryTime, extended) VALUES (...)\<close>\<close>
datatype statement =
    DELETE_FROM_instance2 uint32
  | DELETE_FROM_character_instance_lock_WHERE_instanceId uint32
  | DELETE_FROM_character_instance_lock ObjectGuid uint32 uint32
  | INSERT_INTO_character_instance_lock
      ObjectGuid uint32 uint32 uint32 uint32 string uint32 uint32 uint64 int

text \<open>\<^verbatim>\<open>TC_LOG_ERROR("instance.locks", "Missing instance data for instance id based lock (id %u)")\<close>.
  The \<^verbatim>\<open>TC_LOG_DEBUG\<close> lines of the file are diagnostics and are not modelled.\<close>
datatype log_entry = LOG_ERROR_Missing_instance_data uint32

text \<open>The control block of a \<^verbatim>\<open>shared_ptr\<close>: the object and the number of strong owners.
  A block with \<open>use_count = 0\<close> is a destroyed (or never allocated) record: a weak handle to
  it is expired.\<close>
record control_block =
  obj :: SharedInstanceLockData
  use_count :: nat

text \<open>\<^verbatim>\<open>PlayerLockMap\<close> and \<^verbatim>\<open>LockMap\<close> are unordered maps that own their bindings; they are
  association lists here because \<^verbatim>\<open>clear()\<close> walks them.\<close>
type_synonym PlayerLockMap = "(InstanceLockKey \<times> InstanceLock) list"
type_synonym LockMap = "(ObjectGuid \<times> PlayerLockMap) list"

text \<open>The manager's members, the heap of shared records, and the effects on its
  collaborators: statements executed directly on the character database, error log lines and
  the instance ids registered with the map manager.\<close>
record InstanceLockMgr =
  instanceLocksByPlayer :: LockMap
  temporaryInstanceLocksByPlayer :: LockMap
  instanceLockDataById :: "uint32 \<rightharpoonup> addr"
  unloading :: bool
  heap :: "addr \<Rightarrow> control_block"
  next_addr :: addr
  executed :: "statement list"
  error_log :: "log_entry list"
  registered_instance_ids :: "uint32 list"

definition InstanceLockMgr_ctor :: InstanceLockMgr where
  "InstanceLockMgr_ctor =
     \<lparr>instanceLocksByPlayer = [], temporaryInstanceLocksByPlayer = [],
      instanceLockDataById = Map.empty, unloading = False,
      heap = (\<lambda>_. \<lparr>obj = SharedInstanceLockData_ctor, use_count = 0\<rparr>), next_addr = 0,
      executed = [], error_log = [], registered_instance_ids = []\<rparr>"

subsection \<open>Shared records: ownership and the deletion hook\<close>

definition OnSharedInstanceLockDataDelete :: "InstanceLockMgr \<Rightarrow> uint32 \<Rightarrow> InstanceLockMgr" where
  "OnSharedInstanceLockDataDelete m instanceId' =
     (if unloading m then m
      else m\<lparr>instanceLockDataById := (instanceLockDataById m)(instanceId' := None),
             executed := executed m @ [DELETE_FROM_instance2 instanceId']\<rparr>)"

text \<open>\<^verbatim>\<open>SharedInstanceLockData::~SharedInstanceLockData()\<close> of the record at \<open>a\<close>.\<close>
definition SharedInstanceLockData_dtor :: "InstanceLockMgr \<Rightarrow> addr \<Rightarrow> InstanceLockMgr" where
  "SharedInstanceLockData_dtor m a =
     (if InstanceId (obj (heap m a)) \<noteq> 0
      then OnSharedInstanceLockDataDelete m (InstanceId (obj (heap m a)))
      else m)"

definition set_use_count :: "InstanceLockMgr \<Rightarrow> addr \<Rightarrow> nat \<Rightarrow> InstanceLockMgr" where
  "set_use_count m a n = m\<lparr>heap := (heap m)(a := (heap m a)\<lparr>use_count := n\<rparr>)\<rparr>"

text \<open>\<^verbatim>\<open>std::make_shared<SharedInstanceLockData>()\<close>: a fresh record with one owner.\<close>
definition make_shared :: "InstanceLockMgr \<Rightarrow> addr \<times> InstanceLockMgr" where
  "make_shared m =
     (next_addr m,
      m\<lparr>heap := (heap m)(next_addr m := \<lparr>obj = SharedInstanceLockData_ctor, use_count = 1\<rparr>),
        next_addr := Suc (next_addr m)\<rparr>)"

definition shared_ptr_copy :: "InstanceLockMgr \<Rightarrow> addr \<Rightarrow> InstanceLockMgr" where
  "shared_ptr_copy m a = set_use_count m a (Suc (use_count (heap m a)))"

text \<open>Dropping one strong reference; the last owner destroys the record, whose destructor
  runs with the count already at zero. Dropping a reference to a destroyed record does not
  happen in a well-formed state and changes nothing here.\<close>
definition shared_ptr_release :: "InstanceLockMgr \<Rightarrow> addr \<Rightarrow> InstanceLockMgr" where
  "shared_ptr_release m a =
     (if use_count (heap m a) = 1 then SharedInstanceLockData_dtor (set_use_count m a 0) a
      else set_use_count m a (use_count (heap m a) - 1))"

text \<open>\<^verbatim>\<open>weak_ptr::expired()\<close> and \<^verbatim>\<open>weak_ptr::lock().get()\<close>.\<close>
definition weak_ptr_expired :: "InstanceLockMgr \<Rightarrow> addr \<Rightarrow> bool" where
  "weak_ptr_expired m a \<longleftrightarrow> use_count (heap m a) = 0"

definition weak_ptr_lock_get :: "InstanceLockMgr \<Rightarrow> addr \<Rightarrow> addr option" where
  "weak_ptr_lock_get m a = (if weak_ptr_expired m a then None else Some a)"

text \<open>\<^verbatim>\<open>InstanceLock::~InstanceLock()\<close> and \<^verbatim>\<open>SharedInstanceLock\<close>'s implicit destructor, which
  drops the binding's reference to its shared record.\<close>
definition InstanceLock_dtor :: "InstanceLockMgr \<Rightarrow> InstanceLock \<Rightarrow> InstanceLockMgr" where
  "InstanceLock_dtor m l = (case sharedData l of None \<Rightarrow> m | Some a \<Rightarrow> shared_ptr_release m a)"

fun destroy_locks :: "InstanceLockMgr \<Rightarrow> InstanceLock list \<Rightarrow> InstanceLockMgr" where
  "destroy_locks m [] = m"
| "destroy_locks m (l # ls) = destroy_locks (InstanceLock_dtor m l) ls"

subsection \<open>The two binding stores\<close>

definition FindInstanceLock :: "LockMap \<Rightarrow> ObjectGuid \<Rightarrow> MapDb2Entries \<Rightarrow> InstanceLock option" where
  "FindInstanceLock locks playerGuid entries =
     (case map_of locks playerGuid of
        None \<Rightarrow> None
      | Some playerLocks \<Rightarrow> map_of playerLocks (GetKey entries))"

definition FindActiveInstanceLock ::
  "world \<Rightarrow> InstanceLockMgr \<Rightarrow> ObjectGuid \<Rightarrow> MapDb2Entries \<Rightarrow> bool \<Rightarrow> bool \<Rightarrow> InstanceLock option" where
  "FindActiveInstanceLock w m playerGuid entries ignoreTemporary ignoreExpired =
     (let lock = FindInstanceLock (instanceLocksByPlayer m) playerGuid entries
      in if (case lock of None \<Rightarrow> False
             | Some l \<Rightarrow> \<not> IsExpired w l \<or> extended l \<or> \<not> ignoreExpired)
         then lock
         else if ignoreTemporary then None
         else FindInstanceLock (temporaryInstanceLocksByPlayer m) playerGuid entries)"

text \<open>The two-argument overload.\<close>
definition FindActiveInstanceLock2 ::
  "world \<Rightarrow> InstanceLockMgr \<Rightarrow> ObjectGuid \<Rightarrow> MapDb2Entries \<Rightarrow> InstanceLock option" where
  "FindActiveInstanceLock2 w m playerGuid entries =
     FindActiveInstanceLock w m playerGuid entries False True"

text \<open>\<^verbatim>\<open>locks[playerGuid][key]\<close> creates the player's map when it is missing.\<close>
definition LockMap_put :: "LockMap \<Rightarrow> ObjectGuid \<Rightarrow> InstanceLockKey \<Rightarrow> InstanceLock \<Rightarrow> LockMap" where
  "LockMap_put locks playerGuid key l =
     AList.update playerGuid
       (AList.update key l (case map_of locks playerGuid of None \<Rightarrow> [] | Some pl \<Rightarrow> pl)) locks"

definition LockMap_get :: "LockMap \<Rightarrow> ObjectGuid \<Rightarrow> InstanceLockKey \<Rightarrow> InstanceLock option" where
  "LockMap_get locks playerGuid key =
     (case map_of locks playerGuid of None \<Rightarrow> None | Some pl \<Rightarrow> map_of pl key)"

text \<open>\<^verbatim>\<open>_instanceLocksByPlayer[playerGuid][key].reset(instanceLock)\<close>: the slot takes the new
  binding, then the binding it held is destroyed.\<close>
definition instanceLocksByPlayer_reset ::
  "InstanceLockMgr \<Rightarrow> ObjectGuid \<Rightarrow> InstanceLockKey \<Rightarrow> InstanceLock \<Rightarrow> InstanceLockMgr" where
  "instanceLocksByPlayer_reset m playerGuid key l =
     (let old = LockMap_get (instanceLocksByPlayer m) playerGuid key;
          m = m\<lparr>instanceLocksByPlayer := LockMap_put (instanceLocksByPlayer m) playerGuid key l\<rparr>
      in case old of None \<Rightarrow> m | Some l' \<Rightarrow> InstanceLock_dtor m l')"

definition temporaryInstanceLocksByPlayer_reset ::
  "InstanceLockMgr \<Rightarrow> ObjectGuid \<Rightarrow> InstanceLockKey \<Rightarrow> InstanceLock \<Rightarrow> InstanceLockMgr" where
  "temporaryInstanceLocksByPlayer_reset m playerGuid key l =
     (let old = LockMap_get (temporaryInstanceLocksByPlayer m) playerGuid key;
          m = m\<lparr>temporaryInstanceLocksByPlayer :=
                  LockMap_put (temporaryInstanceLocksByPlayer m) playerGuid key l\<rparr>
      in case old of None \<Rightarrow> m | Some l' \<Rightarrow> InstanceLock_dtor m l')"

text \<open>All bindings a store owns, in the order \<^verbatim>\<open>clear()\<close> destroys them here.\<close>
definition LockMap_locks :: "LockMap \<Rightarrow> InstanceLock list" where
  "LockMap_locks locks = concat (map (\<lambda>p. map snd (snd p)) locks)"

definition Unload :: "InstanceLockMgr \<Rightarrow> InstanceLockMgr" where
  "Unload m =
     (let m = m\<lparr>unloading := True\<rparr>;
          m = (destroy_locks m (LockMap_locks (instanceLocksByPlayer m)))\<lparr>instanceLocksByPlayer := []\<rparr>
      in m\<lparr>instanceLockDataById := Map.empty\<rparr>)"

subsection \<open>Admission\<close>

datatype TransferAbortReason =
    TRANSFER_ABORT_NONE
  | TRANSFER_ABORT_LOCKED_TO_DIFFERENT_INSTANCE
  | TRANSFER_ABORT_ALREADY_COMPLETED_ENCOUNTER

text \<open>The candidate \<open>instanceLock\<close> is dereferenced without a check, so it is a binding here,
  not a possibly null pointer.\<close>
definition CanJoinInstanceLock ::
  "world \<Rightarrow> InstanceLockMgr \<Rightarrow> ObjectGuid \<Rightarrow> MapDb2Entries \<Rightarrow> InstanceLock \<Rightarrow> TransferAbortReason" where
  "CanJoinInstanceLock w m playerGuid entries instanceLock =
     (if \<not> HasResetSchedule (MapDifficulty entries) then TRANSFER_ABORT_NONE
      else case FindActiveInstanceLock2 w m playerGuid entries of
             None \<Rightarrow> TRANSFER_ABORT_NONE
           | Some playerInstanceLock \<Rightarrow>
               if IsFlexLocking (Map entries)
               then (if (CompletedEncountersMask (data playerInstanceLock)
                          AND NOT (CompletedEncountersMask (data instanceLock))) \<noteq> 0
                     then TRANSFER_ABORT_ALREADY_COMPLETED_ENCOUNTER
                     else TRANSFER_ABORT_NONE)
               else if \<not> IsUsingEncounterLocks (MapDifficulty entries)
                       \<and> instanceId playerInstanceLock \<noteq> 0
                       \<and> instanceId playerInstanceLock \<noteq> instanceId instanceLock
               then TRANSFER_ABORT_LOCKED_TO_DIFFERENT_INSTANCE
               else TRANSFER_ABORT_NONE)"

subsection \<open>Creating a temporary binding\<close>

definition CreateInstanceLockForNewInstance ::
  "world \<Rightarrow> InstanceLockMgr \<Rightarrow> ObjectGuid \<Rightarrow> MapDb2Entries \<Rightarrow> uint32
     \<Rightarrow> InstanceLock option \<times> InstanceLockMgr" where
  "CreateInstanceLockForNewInstance w m playerGuid entries instanceId' =
     (if \<not> HasResetSchedule (MapDifficulty entries) then (None, m)
      else
        let (instanceLock, m) =
              (if IsInstanceIdBound entries
               then
                 (let (sharedData', m) = make_shared m;
                      m = m\<lparr>instanceLockDataById := (instanceLockDataById m)(instanceId' \<mapsto> sharedData')\<rparr>
                  in (SharedInstanceLock_ctor (MapID (MapDifficulty entries))
                        (ucast (DifficultyID (MapDifficulty entries)))
                        (GetNextResetTime w entries) 0 sharedData', m))
               else
                 (InstanceLock_ctor (MapID (MapDifficulty entries))
                    (ucast (DifficultyID (MapDifficulty entries)))
                    (GetNextResetTime w entries) 0, m));
            m = temporaryInstanceLocksByPlayer_reset m playerGuid (GetKey entries) instanceLock
        in (Some instanceLock, m))"

subsection \<open>Updating a binding on encounter completion\<close>

record DungeonEncounterEntry =
  Bit :: int

record InstanceLockUpdateEvent =
  Event_InstanceId :: uint32
  NewData :: string
  CompletedEncounter :: "DungeonEncounterEntry option"
  InstanceCompletedEncountersMask :: uint32

text \<open>Modelled from the spec: \<^verbatim>\<open>SetInstanceId\<close> is declared in the missing InstanceLockMgr.h.
  On a binding with a shared record it also assigns the record's \<open>InstanceId\<close> (spec 4.5.1:
  "the shared record's instanceId is assigned later on promotion").\<close>
definition SetInstanceId ::
  "InstanceLockMgr \<Rightarrow> InstanceLock \<Rightarrow> uint32 \<Rightarrow> InstanceLock \<times> InstanceLockMgr" where
  "SetInstanceId m l instanceId' =
     (l\<lparr>instanceId := instanceId'\<rparr>,
      case sharedData l of
        None \<Rightarrow> m
      | Some a \<Rightarrow>
          m\<lparr>heap := (heap m)(a := (heap m a)\<lparr>obj := (obj (heap m a))\<lparr>InstanceId := instanceId'\<rparr>\<rparr>)\<rparr>)"

text \<open>Lines 272 to 297: the usable permanent binding, or else the temporary one, moved into
  the permanent store.\<close>
definition UpdateInstanceLockForPlayer_find ::
  "world \<Rightarrow> InstanceLockMgr \<Rightarrow> ObjectGuid \<Rightarrow> MapDb2Entries \<Rightarrow> InstanceLock option \<times> InstanceLockMgr" where
  "UpdateInstanceLockForPlayer_find w m playerGuid entries =
     (case FindActiveInstanceLock w m playerGuid entries True True of
        Some instanceLock \<Rightarrow> (Some instanceLock, m)
      | None \<Rightarrow>
          (case map_of (temporaryInstanceLocksByPlayer m) playerGuid of
             None \<Rightarrow> (None, m)
           | Some playerLocks \<Rightarrow>
               (case map_of playerLocks (GetKey entries) of
                  None \<Rightarrow> (None, m)
                | Some instanceLock \<Rightarrow>
                    (let m = instanceLocksByPlayer_reset m playerGuid (GetKey entries) instanceLock;
                         playerLocks = AList.delete (GetKey entries) playerLocks;
                         m = m\<lparr>temporaryInstanceLocksByPlayer :=
                                 (if playerLocks = []
                                  then AList.delete playerGuid (temporaryInstanceLocksByPlayer m)
                                  else AList.update playerGuid playerLocks
                                         (temporaryInstanceLocksByPlayer m))\<rparr>
                     in (Some instanceLock, m)))))"

text \<open>Lines 299 to 332: a fresh permanent binding when none was found, else the checks on
  the found one and \<^verbatim>\<open>SetInstanceId\<close>. The identity assertion compares the record the
  registry's handle locks with the binding's own record.\<close>
definition UpdateInstanceLockForPlayer_bind ::
  "world \<Rightarrow> InstanceLockMgr \<Rightarrow> ObjectGuid \<Rightarrow> MapDb2Entries \<Rightarrow> InstanceLockUpdateEvent
     \<Rightarrow> InstanceLock option \<Rightarrow> abort + InstanceLock \<times> InstanceLockMgr" where
  "UpdateInstanceLockForPlayer_bind w m playerGuid entries updateEvent found =
     (case found of
        None \<Rightarrow>
          if IsInstanceIdBound entries
          then
            (case instanceLockDataById m (Event_InstanceId updateEvent) of
               None \<Rightarrow> Inl AssertionFailed
             | Some a \<Rightarrow>
                 if weak_ptr_expired m a then Inl AssertionFailed
                 else
                   let m = shared_ptr_copy m a;
                       instanceLock =
                         SharedInstanceLock_ctor (MapID (MapDifficulty entries))
                           (ucast (DifficultyID (MapDifficulty entries)))
                           (GetNextResetTime w entries) (Event_InstanceId updateEvent) a
                   in if InstanceId (obj (heap m a)) \<noteq> Event_InstanceId updateEvent
                      then Inl AssertionFailed
                      else Inr (instanceLock,
                                instanceLocksByPlayer_reset m playerGuid (GetKey entries) instanceLock))
          else
            (let instanceLock =
                   InstanceLock_ctor (MapID (MapDifficulty entries))
                     (ucast (DifficultyID (MapDifficulty entries)))
                     (GetNextResetTime w entries) (Event_InstanceId updateEvent)
             in Inr (instanceLock,
                     instanceLocksByPlayer_reset m playerGuid (GetKey entries) instanceLock))
      | Some instanceLock \<Rightarrow>
          if IsInstanceIdBound entries
             \<and> \<not> (instanceId instanceLock = 0
                    \<or> instanceId instanceLock = Event_InstanceId updateEvent)
          then Inl AssertionFailed
          else if IsInstanceIdBound entries
             \<and> (case instanceLockDataById m (Event_InstanceId updateEvent) of
                   None \<Rightarrow> True
                 | Some a \<Rightarrow> weak_ptr_lock_get m a \<noteq> sharedData instanceLock)
          then Inl AssertionFailed
          else Inr (SetInstanceId m instanceLock (Event_InstanceId updateEvent)))"

text \<open>Lines 334 to 347. \<^verbatim>\<open>1u << Bit\<close> is defined for bits 0 to 31 only; outside that range
  the shift here is what \<open>push_bit\<close> gives.\<close>
definition UpdateInstanceLockForPlayer_apply ::
  "MapDb2Entries \<Rightarrow> InstanceLockUpdateEvent \<Rightarrow> InstanceLock \<Rightarrow> InstanceLock" where
  "UpdateInstanceLockForPlayer_apply entries updateEvent instanceLock =
     (let l = instanceLock\<lparr>data := (data instanceLock)\<lparr>Data := NewData updateEvent\<rparr>\<rparr>;
          l = (case CompletedEncounter updateEvent of
                 None \<Rightarrow> l
               | Some encounter \<Rightarrow>
                   l\<lparr>data := (data l)\<lparr>CompletedEncountersMask :=
                        CompletedEncountersMask (data l) OR push_bit (nat (Bit encounter)) 1\<rparr>\<rparr>)
      in if \<not> IsUsingEncounterLocks (MapDifficulty entries)
         then l\<lparr>data := (data l)\<lparr>CompletedEncountersMask :=
                  CompletedEncountersMask (data l) OR InstanceCompletedEncountersMask updateEvent\<rparr>\<rparr>
         else l)"

text \<open>Lines 349 to 358: the expired binding must have been extended, and starts a new
  period.\<close>
definition UpdateInstanceLockForPlayer_expired ::
  "world \<Rightarrow> MapDb2Entries \<Rightarrow> InstanceLock \<Rightarrow> abort + InstanceLock" where
  "UpdateInstanceLockForPlayer_expired w entries instanceLock =
     (if IsExpired w instanceLock
      then (if \<not> extended instanceLock then Inl AssertionFailed
            else Inr (instanceLock\<lparr>expiryTime := GetNextResetTime w entries, extended := False\<rparr>))
      else Inr instanceLock)"

text \<open>\<^verbatim>\<open>system_clock::to_time_t\<close> truncates towards zero.\<close>
definition to_time_t :: "InstanceResetTimePoint \<Rightarrow> int" where
  "to_time_t t =
     (if 0 \<le> t then t div system_clock_ticks_per_second
      else - ((- t) div system_clock_ticks_per_second))"

text \<open>Lines 361 to 377: the two statements appended to the caller's transaction.\<close>
definition UpdateInstanceLockForPlayer_save ::
  "world \<Rightarrow> ObjectGuid \<Rightarrow> MapDb2Entries \<Rightarrow> InstanceLock \<Rightarrow> statement list" where
  "UpdateInstanceLockForPlayer_save w playerGuid entries instanceLock =
     [DELETE_FROM_character_instance_lock playerGuid
        (MapID (MapDifficulty entries)) (LockID (MapDifficulty entries)),
      INSERT_INTO_character_instance_lock playerGuid
        (MapID (MapDifficulty entries)) (LockID (MapDifficulty entries))
        (instanceId instanceLock) (DifficultyID (MapDifficulty entries))
        (EscapeString w (Data (data instanceLock)))
        (CompletedEncountersMask (data instanceLock))
        (EntranceWorldSafeLocId (data instanceLock))
        (word_of_int (to_time_t (expiryTime instanceLock)))
        (if extended instanceLock then 1 else 0)]"

text \<open>The binding is changed in place in its slot of the permanent store; the last line of
  the model writes the changed binding into that slot. The result is the binding, the manager
  and the transaction.\<close>
definition UpdateInstanceLockForPlayer ::
  "world \<Rightarrow> InstanceLockMgr \<Rightarrow> statement list \<Rightarrow> ObjectGuid \<Rightarrow> MapDb2Entries
     \<Rightarrow> InstanceLockUpdateEvent \<Rightarrow> abort + InstanceLock \<times> InstanceLockMgr \<times> statement list" where
  "UpdateInstanceLockForPlayer w m trans' playerGuid entries updateEvent =
     (let (found, m) = UpdateInstanceLockForPlayer_find w m playerGuid entries
      in case UpdateInstanceLockForPlayer_bind w m playerGuid entries updateEvent found of
           Inl e \<Rightarrow> Inl e
         | Inr (instanceLock, m) \<Rightarrow>
             (case UpdateInstanceLockForPlayer_expired w entries
                     (UpdateInstanceLockForPlayer_apply entries updateEvent instanceLock) of
                Inl e \<Rightarrow> Inl e
              | Inr instanceLock \<Rightarrow>
                  Inr (instanceLock,
                       m\<lparr>instanceLocksByPlayer :=
                           LockMap_put (instanceLocksByPlayer m) playerGuid (GetKey entries) instanceLock\<rparr>,
                       trans' @ UpdateInstanceLockForPlayer_save w playerGuid entries instanceLock)))"

subsection \<open>Loading\<close>

text \<open>A row of \<^verbatim>\<open>SELECT instanceId, data, completedEncountersMask FROM instance\<close>.\<close>
record instance_row =
  instance_instanceId :: uint32
  instance_data :: string
  instance_completedEncountersMask :: uint32

text \<open>A row of \<^verbatim>\<open>SELECT guid, mapId, lockId, instanceId, difficulty, data,
  completedEncountersMask, expiryTime, extended FROM character_instance_lock\<close>.\<close>
record character_instance_lock_row =
  row_guid :: uint64
  row_mapId :: uint32
  row_lockId :: uint32
  row_instanceId :: uint32
  row_difficulty :: uint8
  row_data :: string
  row_completedEncountersMask :: uint32
  row_expiryTime :: uint64
  row_extended :: bool

text \<open>The local index of \<^verbatim>\<open>Load\<close>, which owns one strong reference per entry.\<close>
type_synonym shared_index = "(uint32 \<times> addr) list"

text \<open>Lines 110 to 118. Assigning to a key the index already holds drops the reference it
  held.\<close>
definition Load_instance_row ::
  "shared_index \<times> InstanceLockMgr \<Rightarrow> instance_row \<Rightarrow> shared_index \<times> InstanceLockMgr" where
  "Load_instance_row s r =
     (let (instanceLockDataById', m) = s;
          (data', m) = make_shared m;
          m = m\<lparr>heap := (heap m)(data' := (heap m data')
                 \<lparr>obj := (obj (heap m data'))
                           \<lparr>Data := instance_data r,
                            CompletedEncountersMask := instance_completedEncountersMask r,
                            InstanceId := instance_instanceId r\<rparr>\<rparr>)\<rparr>;
          old = map_of instanceLockDataById' (instance_instanceId r);
          instanceLockDataById' = AList.update (instance_instanceId r) data' instanceLockDataById'
      in (instanceLockDataById',
          case old of None \<Rightarrow> m | Some a \<Rightarrow> shared_ptr_release m a))"

text \<open>Lines 157 to 161.\<close>
definition Load_store ::
  "InstanceLockMgr \<Rightarrow> character_instance_lock_row \<Rightarrow> InstanceLock \<Rightarrow> InstanceLockMgr" where
  "Load_store m r instanceLock =
     (let l = instanceLock\<lparr>data := (data instanceLock)\<lparr>Data := row_data r\<rparr>\<rparr>;
          l = l\<lparr>data := (data l)\<lparr>CompletedEncountersMask := row_completedEncountersMask r\<rparr>\<rparr>;
          l = l\<lparr>extended := row_extended r\<rparr>
      in instanceLocksByPlayer_reset m (row_guid r) (row_mapId r, row_lockId r) l)"

text \<open>Lines 128 to 161, one per-player row.\<close>
definition Load_lock_row ::
  "world \<Rightarrow> shared_index \<Rightarrow> InstanceLockMgr \<Rightarrow> character_instance_lock_row
     \<Rightarrow> abort + InstanceLockMgr" where
  "Load_lock_row w instanceLockDataById' m r =
     (let expiryTime' = from_time_t (sint (row_expiryTime r));
          m = m\<lparr>registered_instance_ids := registered_instance_ids m @ [row_instanceId r]\<rparr>
      in case MapDb2Entries_ctor w (row_mapId r) (row_difficulty r) of
           Inl e \<Rightarrow> Inl e
         | Inr entries \<Rightarrow>
             if IsInstanceIdBound entries
             then
               (case map_of instanceLockDataById' (row_instanceId r) of
                  None \<Rightarrow>
                    Inr (m\<lparr>error_log := error_log m @ [LOG_ERROR_Missing_instance_data (row_instanceId r)],
                           executed := executed m
                             @ [DELETE_FROM_character_instance_lock_WHERE_instanceId (row_instanceId r)]\<rparr>)
                | Some a \<Rightarrow>
                    (let m = shared_ptr_copy m a;
                         instanceLock =
                           SharedInstanceLock_ctor (row_mapId r) (row_difficulty r) expiryTime'
                             (row_instanceId r) a;
                         m = m\<lparr>instanceLockDataById := (instanceLockDataById m)(row_instanceId r \<mapsto> a)\<rparr>
                     in Inr (Load_store m r instanceLock)))
             else Inr (Load_store m r
                         (InstanceLock_ctor (row_mapId r) (row_difficulty r) expiryTime'
                            (row_instanceId r))))"

fun Load_lock_rows ::
  "world \<Rightarrow> shared_index \<Rightarrow> InstanceLockMgr \<Rightarrow> character_instance_lock_row list
     \<Rightarrow> abort + InstanceLockMgr" where
  "Load_lock_rows w idx m [] = Inr m"
| "Load_lock_rows w idx m (r # rs) =
     (case Load_lock_row w idx m r of
        Inl e \<Rightarrow> Inl e
      | Inr m \<Rightarrow> Load_lock_rows w idx m rs)"

fun release_all :: "InstanceLockMgr \<Rightarrow> addr list \<Rightarrow> InstanceLockMgr" where
  "release_all m [] = m"
| "release_all m (a # as) = release_all (shared_ptr_release m a) as"

text \<open>\<^verbatim>\<open>InstanceLockMgr::Load\<close> on the two result sets; the local index is destroyed at the
  end and drops its references.\<close>
definition Load ::
  "world \<Rightarrow> InstanceLockMgr \<Rightarrow> instance_row list \<Rightarrow> character_instance_lock_row list
     \<Rightarrow> abort + InstanceLockMgr" where
  "Load w m instances locks =
     (let (instanceLockDataById', m) = fold (\<lambda>r s. Load_instance_row s r) instances ([], m)
      in case Load_lock_rows w instanceLockDataById' m locks of
           Inl e \<Rightarrow> Inl e
         | Inr m \<Rightarrow> Inr (release_all m (map snd instanceLockDataById')))"

subsection \<open>Concrete data for the scenarios\<close>

text \<open>Monday 5 October 2026, 12:00:00 local time; map 100, difficulty 5, lock group 7; the
  default reset schedule (Tuesday, 9 o'clock). The example world's \<^verbatim>\<open>mktime\<close> counts seconds
  from the start of the month.\<close>

definition ex_now :: tm where
  "ex_now = \<lparr>tm_sec = 0, tm_min = 0, tm_hour = 12, tm_mday = 5, tm_mon = 9, tm_year = 126,
             tm_wday = 1, tm_yday = 277, tm_isdst = 0\<rparr>"

definition ex_map :: "bool \<Rightarrow> MapEntry" where
  "ex_map flex = \<lparr>ID = 100, IsFlexLocking = flex\<rparr>"

definition ex_difficulty :: "MapDifficultyResetInterval \<Rightarrow> bool \<Rightarrow> bool \<Rightarrow> MapDifficultyEntry" where
  "ex_difficulty interval schedule encounterLocks =
     \<lparr>MapID = 100, LockID = 7, DifficultyID = 5, ResetInterval = interval,
      HasResetSchedule = schedule, IsUsingEncounterLocks = encounterLocks,
      GetRaidDuration = 604800\<rparr>"

definition ex_entries :: "bool \<Rightarrow> bool \<Rightarrow> bool \<Rightarrow> MapDb2Entries" where
  "ex_entries flex schedule encounterLocks =
     \<lparr>Map = ex_map flex,
      MapDifficulty = ex_difficulty MAP_DIFFICULTY_RESET_WEEKLY schedule encounterLocks\<rparr>"

definition ex_world :: world where
  "ex_world =
     \<lparr>GetSystemTime = from_time_t (spec_local_seconds ex_now), GetDateAndTime = ex_now,
      config = Map.empty, mktime = spec_local_seconds,
      sMapStore = [100 \<mapsto> ex_map False],
      GetMapDifficultyData = (\<lambda>mapId' difficulty.
         if mapId' = 100 \<and> difficulty = 5
         then Some (ex_difficulty MAP_DIFFICULTY_RESET_WEEKLY True False) else None),
      EscapeString = (\<lambda>s. s)\<rparr>"

definition ex_lock :: "uint32 \<Rightarrow> uint32 \<Rightarrow> int \<Rightarrow> bool \<Rightarrow> InstanceLock" where
  "ex_lock instanceId' mask' expiry ext =
     (InstanceLock_ctor 100 5 (from_time_t expiry) instanceId')
       \<lparr>extended := ext, data := InstanceLockData_ctor\<lparr>CompletedEncountersMask := mask'\<rparr>\<rparr>"

definition ex_mgr :: "LockMap \<Rightarrow> LockMap \<Rightarrow> InstanceLockMgr" where
  "ex_mgr permanent temporary =
     InstanceLockMgr_ctor\<lparr>instanceLocksByPlayer := permanent,
                           temporaryInstanceLocksByPlayer := temporary\<rparr>"


text \<open>The update of scenario 1, a permanent binding of two players to the shared record of
  instance 9 (scenario 6), and rows of the two tables.\<close>

definition ex_event :: InstanceLockUpdateEvent where
  "ex_event = \<lparr>Event_InstanceId = 42, NewData = ''a'', CompletedEncounter = Some \<lparr>Bit = 3\<rparr>,
               InstanceCompletedEncountersMask = 0\<rparr>"

definition ex_shared_lock :: InstanceLock where
  "ex_shared_lock = SharedInstanceLock_ctor 100 5 (from_time_t 1000000) 9 0"

definition ex_shared_mgr :: InstanceLockMgr where
  "ex_shared_mgr =
     InstanceLockMgr_ctor
       \<lparr>instanceLocksByPlayer := [(1, [((100, 7), ex_shared_lock)]), (2, [((100, 7), ex_shared_lock)])],
        instanceLockDataById := [9 \<mapsto> 0],
        heap := (heap InstanceLockMgr_ctor)
                  (0 := \<lparr>obj = SharedInstanceLockData_ctor\<lparr>InstanceId := 9\<rparr>, use_count = 2\<rparr>),
        next_addr := 1\<rparr>"

definition ex_row :: "uint32 \<Rightarrow> character_instance_lock_row" where
  "ex_row i = \<lparr>row_guid = 1, row_mapId = 100, row_lockId = 7, row_instanceId = i,
               row_difficulty = 5, row_data = ''d'', row_completedEncountersMask = 6,
               row_expiryTime = 1000000, row_extended = False\<rparr>"

definition ex_instance_row :: instance_row where
  "ex_instance_row = \<lparr>instance_instanceId = 9, instance_data = ''s'',
                      instance_completedEncountersMask = 7\<rparr>"

section \<open>Properties\<close>


subsection \<open>Evaluating the scenarios\<close>

lemmas ex_defs =
  ex_now_def ex_map_def ex_difficulty_def ex_entries_def ex_world_def ex_lock_def ex_mgr_def
  InstanceLockMgr_ctor_def InstanceLock_ctor_def InstanceLockData_ctor_def
  SharedInstanceLock_ctor_def SharedInstanceLockData_ctor_def from_time_t_def
  spec_local_seconds_def system_clock_ticks_per_second_def

lemmas find_defs =
  FindActiveInstanceLock2_def FindActiveInstanceLock_def FindInstanceLock_def GetKey_def
  IsExpired_def

lemmas ex_shared_defs = ex_shared_lock_def ex_shared_mgr_def

lemmas release_defs =
  InstanceLock_dtor_def shared_ptr_release_def SharedInstanceLockData_dtor_def
  OnSharedInstanceLockDataDelete_def set_use_count_def

lemmas update_defs =
  UpdateInstanceLockForPlayer_def UpdateInstanceLockForPlayer_find_def
  UpdateInstanceLockForPlayer_bind_def UpdateInstanceLockForPlayer_apply_def
  UpdateInstanceLockForPlayer_expired_def UpdateInstanceLockForPlayer_save_def
  instanceLocksByPlayer_reset_def LockMap_get_def LockMap_put_def SetInstanceId_def
  IsInstanceIdBound_def GetNextResetTime_def GetNextResetTime_dateTime_def GetIntDefault_def
  ex_event_def

lemmas create_defs =
  CreateInstanceLockForNewInstance_def temporaryInstanceLocksByPlayer_reset_def make_shared_def
  LockMap_get_def LockMap_put_def IsInstanceIdBound_def GetKey_def
  GetNextResetTime_def GetNextResetTime_dateTime_def GetIntDefault_def

lemmas load_defs =
  Load_def Load_instance_row_def Load_lock_row_def Load_store_def MapDb2Entries_ctor_def
  instanceLocksByPlayer_reset_def LockMap_get_def LockMap_put_def IsInstanceIdBound_def
  make_shared_def shared_ptr_copy_def ex_row_def ex_instance_row_def

subsection \<open>Admission\<close>

text \<open>C1. \<^verbatim>\<open>CanJoinInstanceLock\<close> allows the transfer when the difficulty has no reset schedule
  or the player has no active binding under the key. With an active binding \<open>p\<close>: on a
  flex-locking map it answers \<open>ALREADY_COMPLETED_ENCOUNTER\<close> exactly when
  \<open>playerMask AND NOT candidateMask\<close> is not zero and allows otherwise; on a map that is not
  flex-locking and uses encounter locks it always allows; on an instance-bound map it answers
  \<open>LOCKED_TO_DIFFERENT_INSTANCE\<close> exactly when the player's binding has a nonzero instance id
  that differs from the candidate's, and allows otherwise.\<close>
theorem CanJoinInstanceLock_cases:
  "(\<not> HasResetSchedule (MapDifficulty entries) \<or> FindActiveInstanceLock2 w m g entries = None
      \<longrightarrow> CanJoinInstanceLock w m g entries c = TRANSFER_ABORT_NONE)
   \<and> (HasResetSchedule (MapDifficulty entries) \<and> FindActiveInstanceLock2 w m g entries = Some p
      \<longrightarrow>
        (IsFlexLocking (Map entries) \<longrightarrow>
           CanJoinInstanceLock w m g entries c =
             (if CompletedEncountersMask (data p) AND NOT (CompletedEncountersMask (data c)) \<noteq> 0
              then TRANSFER_ABORT_ALREADY_COMPLETED_ENCOUNTER else TRANSFER_ABORT_NONE))
      \<and> (\<not> IsFlexLocking (Map entries) \<and> IsUsingEncounterLocks (MapDifficulty entries) \<longrightarrow>
           CanJoinInstanceLock w m g entries c = TRANSFER_ABORT_NONE)
      \<and> (IsInstanceIdBound entries \<longrightarrow>
           CanJoinInstanceLock w m g entries c =
             (if instanceId p \<noteq> 0 \<and> instanceId p \<noteq> instanceId c
              then TRANSFER_ABORT_LOCKED_TO_DIFFERENT_INSTANCE else TRANSFER_ABORT_NONE)))"
  by (auto simp: CanJoinInstanceLock_def IsInstanceIdBound_def)

theorem CanJoinInstanceLock_cases_witness:
  "CanJoinInstanceLock ex_world (ex_mgr [(1, [((100, 7), ex_lock 42 6 1000000 False)])] []) 1
      (ex_entries True False False) (ex_lock 43 7 1000000 False) = TRANSFER_ABORT_NONE
   \<and> CanJoinInstanceLock ex_world (ex_mgr [] []) 1
      (ex_entries False True False) (ex_lock 43 7 1000000 False) = TRANSFER_ABORT_NONE
   \<and> FindActiveInstanceLock2 ex_world (ex_mgr [(1, [((100, 7), ex_lock 42 6 1000000 False)])] []) 1
      (ex_entries True True False) = Some (ex_lock 42 6 1000000 False)
   \<and> CanJoinInstanceLock ex_world (ex_mgr [(1, [((100, 7), ex_lock 42 6 1000000 False)])] []) 1
      (ex_entries True True False) (ex_lock 43 7 1000000 False) = TRANSFER_ABORT_NONE
   \<and> CanJoinInstanceLock ex_world (ex_mgr [(1, [((100, 7), ex_lock 42 7 1000000 False)])] []) 1
      (ex_entries True True False) (ex_lock 43 6 1000000 False)
        = TRANSFER_ABORT_ALREADY_COMPLETED_ENCOUNTER
   \<and> CanJoinInstanceLock ex_world (ex_mgr [(1, [((100, 7), ex_lock 42 6 1000000 False)])] []) 1
      (ex_entries False True True) (ex_lock 43 7 1000000 False) = TRANSFER_ABORT_NONE
   \<and> CanJoinInstanceLock ex_world (ex_mgr [(1, [((100, 7), ex_lock 42 6 1000000 False)])] []) 1
      (ex_entries False True False) (ex_lock 43 7 1000000 False)
        = TRANSFER_ABORT_LOCKED_TO_DIFFERENT_INSTANCE
   \<and> CanJoinInstanceLock ex_world (ex_mgr [(1, [((100, 7), ex_lock 42 6 1000000 False)])] []) 1
      (ex_entries False True False) (ex_lock 42 7 1000000 False) = TRANSFER_ABORT_NONE"
  using
    CanJoinInstanceLock_cases
      [of "ex_entries True False False" ex_world
          "ex_mgr [(1, [((100, 7), ex_lock 42 6 1000000 False)])] []" 1 _ "ex_lock 43 7 1000000 False"]
    CanJoinInstanceLock_cases
      [of "ex_entries False True False" ex_world "ex_mgr [] []" 1 _ "ex_lock 43 7 1000000 False"]
    CanJoinInstanceLock_cases
      [of "ex_entries True True False" ex_world
          "ex_mgr [(1, [((100, 7), ex_lock 42 6 1000000 False)])] []" 1
          "ex_lock 42 6 1000000 False" "ex_lock 43 7 1000000 False"]
    CanJoinInstanceLock_cases
      [of "ex_entries True True False" ex_world
          "ex_mgr [(1, [((100, 7), ex_lock 42 7 1000000 False)])] []" 1
          "ex_lock 42 7 1000000 False" "ex_lock 43 6 1000000 False"]
    CanJoinInstanceLock_cases
      [of "ex_entries False True True" ex_world
          "ex_mgr [(1, [((100, 7), ex_lock 42 6 1000000 False)])] []" 1
          "ex_lock 42 6 1000000 False" "ex_lock 43 7 1000000 False"]
    CanJoinInstanceLock_cases
      [of "ex_entries False True False" ex_world
          "ex_mgr [(1, [((100, 7), ex_lock 42 6 1000000 False)])] []" 1
          "ex_lock 42 6 1000000 False" "ex_lock 43 7 1000000 False"]
    CanJoinInstanceLock_cases
      [of "ex_entries False True False" ex_world
          "ex_mgr [(1, [((100, 7), ex_lock 42 6 1000000 False)])] []" 1
          "ex_lock 42 6 1000000 False" "ex_lock 42 7 1000000 False"]
  by (simp add: CanJoinInstanceLock_def find_defs ex_defs)

subsection \<open>Looking a binding up\<close>

text \<open>C2. \<^verbatim>\<open>FindActiveInstanceLock\<close> returns the permanent binding of the key when there is one
  and it is not expired, or is extended, or \<open>ignoreExpired\<close> is false. Otherwise it returns the
  temporary binding of the key (or nothing when there is none) when \<open>ignoreTemporary\<close> is false,
  and nothing when \<open>ignoreTemporary\<close> is true. The two-argument overload calls it with
  \<open>ignoreTemporary = false\<close> and \<open>ignoreExpired = true\<close>, so it does not see a permanent binding
  that is expired and not extended, and returns the temporary binding of the same key.\<close>
theorem FindActiveInstanceLock_cases:
  "(FindInstanceLock (instanceLocksByPlayer m) g entries = Some p
      \<and> (\<not> IsExpired w p \<or> extended p \<or> \<not> ignoreExpired)
      \<longrightarrow> FindActiveInstanceLock w m g entries ignoreTemporary ignoreExpired = Some p)
   \<and> (\<not> (\<exists>p. FindInstanceLock (instanceLocksByPlayer m) g entries = Some p
             \<and> (\<not> IsExpired w p \<or> extended p \<or> \<not> ignoreExpired))
      \<longrightarrow> FindActiveInstanceLock w m g entries ignoreTemporary ignoreExpired =
            (if ignoreTemporary then None
             else FindInstanceLock (temporaryInstanceLocksByPlayer m) g entries))
   \<and> FindActiveInstanceLock2 w m g entries = FindActiveInstanceLock w m g entries False True
   \<and> (FindInstanceLock (instanceLocksByPlayer m) g entries = Some p
        \<and> IsExpired w p \<and> \<not> extended p
      \<longrightarrow> FindActiveInstanceLock2 w m g entries =
            FindInstanceLock (temporaryInstanceLocksByPlayer m) g entries)"
  by (cases "FindInstanceLock (instanceLocksByPlayer m) g entries")
     (auto simp: FindActiveInstanceLock_def FindActiveInstanceLock2_def Let_def)

theorem FindActiveInstanceLock_cases_witness:
  "FindActiveInstanceLock ex_world
      (ex_mgr [(1, [((100, 7), ex_lock 42 6 1000000 False)])]
              [(1, [((100, 7), ex_lock 0 0 1000000 False)])]) 1
      (ex_entries False True False) True True = Some (ex_lock 42 6 1000000 False)
   \<and> FindActiveInstanceLock ex_world
      (ex_mgr [(1, [((100, 7), ex_lock 42 6 1000 False)])]
              [(1, [((100, 7), ex_lock 0 0 1000000 False)])]) 1
      (ex_entries False True False) True False = Some (ex_lock 42 6 1000 False)
   \<and> FindActiveInstanceLock ex_world
      (ex_mgr [(1, [((100, 7), ex_lock 42 6 1000 True)])]
              [(1, [((100, 7), ex_lock 0 0 1000000 False)])]) 1
      (ex_entries False True False) True True = Some (ex_lock 42 6 1000 True)
   \<and> FindActiveInstanceLock ex_world
      (ex_mgr [(1, [((100, 7), ex_lock 42 6 1000 False)])]
              [(1, [((100, 7), ex_lock 0 0 1000000 False)])]) 1
      (ex_entries False True False) True True = None
   \<and> FindActiveInstanceLock ex_world
      (ex_mgr [(1, [((100, 7), ex_lock 42 6 1000 False)])]
              [(1, [((100, 7), ex_lock 0 0 1000000 False)])]) 1
      (ex_entries False True False) False True = Some (ex_lock 0 0 1000000 False)
   \<and> IsExpired ex_world (ex_lock 42 6 1000 False)
   \<and> FindActiveInstanceLock2 ex_world
      (ex_mgr [(1, [((100, 7), ex_lock 42 6 1000 False)])]
              [(1, [((100, 7), ex_lock 0 0 1000000 False)])]) 1
      (ex_entries False True False) = Some (ex_lock 0 0 1000000 False)
   \<and> FindActiveInstanceLock2 ex_world
      (ex_mgr [(1, [((100, 7), ex_lock 42 6 1000 False)])] []) 1
      (ex_entries False True False) = None"
  using
    FindActiveInstanceLock_cases
      [of "ex_mgr [(1, [((100, 7), ex_lock 42 6 1000000 False)])]
                  [(1, [((100, 7), ex_lock 0 0 1000000 False)])]" 1 "ex_entries False True False"
          "ex_lock 42 6 1000000 False" ex_world True True]
    FindActiveInstanceLock_cases
      [of "ex_mgr [(1, [((100, 7), ex_lock 42 6 1000 False)])]
                  [(1, [((100, 7), ex_lock 0 0 1000000 False)])]" 1 "ex_entries False True False"
          "ex_lock 42 6 1000 False" ex_world False True]
    FindActiveInstanceLock_cases
      [of "ex_mgr [(1, [((100, 7), ex_lock 42 6 1000 False)])]
                  [(1, [((100, 7), ex_lock 0 0 1000000 False)])]" 1 "ex_entries False True False"
          "ex_lock 42 6 1000 False" ex_world True True]
  by (simp add: find_defs ex_defs)

subsection \<open>Expiry\<close>

text \<open>C3. The effective expiry time of a binding is its expiry time when it is not extended.
  When it is extended (and its map and difficulty are in the catalog, which the function
  asserts), it is the next reset time of these entries if the binding is expired, that is if
  \<open>expiryTime < now\<close>, and else its expiry time plus the difficulty's raid duration.\<close>
theorem GetEffectiveExpiryTime_cases:
  "(\<not> extended b \<longrightarrow> GetEffectiveExpiryTime w b = Inr (expiryTime b))
   \<and> (extended b \<and> MapDb2Entries_ctor w (mapId b) (difficultyId b) = Inr entries \<longrightarrow>
        GetEffectiveExpiryTime w b =
          (if expiryTime b < GetSystemTime w then Inr (GetNextResetTime w entries)
           else Inr (expiryTime b + Seconds (uint (GetRaidDuration (MapDifficulty entries))))))"
  by (simp add: GetEffectiveExpiryTime_def IsExpired_def)

theorem GetEffectiveExpiryTime_cases_witness:
  "GetEffectiveExpiryTime ex_world (ex_lock 42 6 1000 False) = Inr (from_time_t 1000)
   \<and> MapDb2Entries_ctor ex_world 100 5 = Inr (ex_entries False True False)
   \<and> GetEffectiveExpiryTime ex_world (ex_lock 42 6 1000 True) = Inr (from_time_t 550800)
   \<and> GetEffectiveExpiryTime ex_world (ex_lock 42 6 550800 True)
       = Inr (from_time_t (550800 + 604800))"
  using
    GetEffectiveExpiryTime_cases [of "ex_lock 42 6 1000 False" ex_world]
    GetEffectiveExpiryTime_cases [of "ex_lock 42 6 1000 True" ex_world "ex_entries False True False"]
    GetEffectiveExpiryTime_cases [of "ex_lock 42 6 550800 True" ex_world "ex_entries False True False"]
  by (simp add: GetEffectiveExpiryTime_def MapDb2Entries_ctor_def IsExpired_def Seconds_def
      GetNextResetTime_def GetNextResetTime_dateTime_def GetIntDefault_def ex_defs)

subsection \<open>Reset schedule\<close>

lemma weekly_days:
  fixes wd rd h hr :: int
  assumes "0 \<le> wd" "wd \<le> 6" "0 \<le> rd" "rd \<le> 6"
  defines "days \<equiv> (if wd > rd \<or> (wd = rd \<and> hr \<ge> h) then rd - wd + 7 else rd - wd)"
  shows "0 \<le> days" "days \<le> 7" "(wd + days) mod 7 = rd"
    "(days = 0) = (wd = rd \<and> hr < h)"
    "0 \<le> j \<Longrightarrow> j < days \<Longrightarrow> (wd + j) mod 7 = rd \<Longrightarrow> j = 0 \<and> wd = rd \<and> h \<le> hr"
  using assms by (auto simp: days_def split: if_splits) presburger+

lemma tm_mday_hour_swap:
  "r\<lparr>tm_mday := a, tm_hour := b\<rparr> = (r\<lparr>tm_hour := b, tm_mday := a\<rparr> :: tm)"
  by (cases r) simp

text \<open>C4. With a daily reset interval \<^verbatim>\<open>GetNextResetTime\<close> is today at the reset hour if the
  current hour is strictly less than the reset hour, and tomorrow at the reset hour otherwise.
  With a weekly interval, for a local time and a configured hour and week day in their ranges,
  it is the reset hour of the first day from today on that is the configured week day and
  whose reset hour is strictly after now; when today is the reset day and the hour is at or
  past the reset hour that day is seven days ahead. Minutes and seconds of the time handed to
  \<^verbatim>\<open>mktime\<close> are zero for every interval.\<close>
theorem GetNextResetTime_schedule:
  "(ResetInterval (MapDifficulty entries) = MAP_DIFFICULTY_RESET_DAILY \<longrightarrow>
      GetNextResetTime w entries =
        from_time_t (mktime w (spec_day_at_hour (GetDateAndTime w)
          (if tm_hour (GetDateAndTime w) < GetIntDefault w ''ResetSchedule.DailyHour'' 9 then 0 else 1)
          (GetIntDefault w ''ResetSchedule.DailyHour'' 9))))
   \<and> (ResetInterval (MapDifficulty entries) = MAP_DIFFICULTY_RESET_WEEKLY
        \<and> 0 \<le> tm_wday (GetDateAndTime w) \<and> tm_wday (GetDateAndTime w) \<le> 6
        \<and> 0 \<le> tm_hour (GetDateAndTime w) \<and> tm_hour (GetDateAndTime w) \<le> 23
        \<and> 0 \<le> tm_min (GetDateAndTime w) \<and> tm_min (GetDateAndTime w) \<le> 59
        \<and> 0 \<le> tm_sec (GetDateAndTime w) \<and> tm_sec (GetDateAndTime w) \<le> 59
        \<and> 0 \<le> GetIntDefault w ''ResetSchedule.WeeklyDay'' 2
        \<and> GetIntDefault w ''ResetSchedule.WeeklyDay'' 2 \<le> 6
        \<and> 0 \<le> GetIntDefault w ''ResetSchedule.DailyHour'' 9
        \<and> GetIntDefault w ''ResetSchedule.DailyHour'' 9 \<le> 23 \<longrightarrow>
      (\<exists>days.
         GetNextResetTime w entries =
           from_time_t (mktime w (spec_day_at_hour (GetDateAndTime w) days
             (GetIntDefault w ''ResetSchedule.DailyHour'' 9)))
         \<and> 0 \<le> days
         \<and> (tm_wday (GetDateAndTime w) + days) mod 7 = GetIntDefault w ''ResetSchedule.WeeklyDay'' 2
         \<and> spec_local_seconds (GetDateAndTime w)
             < spec_local_seconds (spec_day_at_hour (GetDateAndTime w) days
                 (GetIntDefault w ''ResetSchedule.DailyHour'' 9))
         \<and> (\<forall>j. 0 \<le> j \<and> j < days
                  \<and> (tm_wday (GetDateAndTime w) + j) mod 7
                      = GetIntDefault w ''ResetSchedule.WeeklyDay'' 2
              \<longrightarrow> spec_local_seconds (spec_day_at_hour (GetDateAndTime w) j
                     (GetIntDefault w ''ResetSchedule.DailyHour'' 9))
                   \<le> spec_local_seconds (GetDateAndTime w))
         \<and> (tm_wday (GetDateAndTime w) = GetIntDefault w ''ResetSchedule.WeeklyDay'' 2
              \<and> GetIntDefault w ''ResetSchedule.DailyHour'' 9 \<le> tm_hour (GetDateAndTime w)
              \<longrightarrow> days = 7)))
   \<and> tm_min (GetNextResetTime_dateTime w entries) = 0
   \<and> tm_sec (GetNextResetTime_dateTime w entries) = 0"
proof (intro conjI impI)
  assume "ResetInterval (MapDifficulty entries) = MAP_DIFFICULTY_RESET_DAILY"
  then show "GetNextResetTime w entries =
        from_time_t (mktime w (spec_day_at_hour (GetDateAndTime w)
          (if tm_hour (GetDateAndTime w) < GetIntDefault w ''ResetSchedule.DailyHour'' 9 then 0 else 1)
          (GetIntDefault w ''ResetSchedule.DailyHour'' 9)))"
    by (simp add: GetNextResetTime_def GetNextResetTime_dateTime_def spec_day_at_hour_def Let_def
        tm_mday_hour_swap)
next
  show "tm_min (GetNextResetTime_dateTime w entries) = 0"
    by (simp add: GetNextResetTime_dateTime_def Let_def split: MapDifficultyResetInterval.split)
next
  show "tm_sec (GetNextResetTime_dateTime w entries) = 0"
    by (simp add: GetNextResetTime_dateTime_def Let_def split: MapDifficultyResetInterval.split)
next
  define now where "now = GetDateAndTime w"
  define h where "h = GetIntDefault w ''ResetSchedule.DailyHour'' 9"
  define rd where "rd = GetIntDefault w ''ResetSchedule.WeeklyDay'' 2"
  define days where
    "days = (if tm_wday now > rd \<or> (tm_wday now = rd \<and> tm_hour now \<ge> h)
             then rd - tm_wday now + 7 else rd - tm_wday now)"
  assume a: "ResetInterval (MapDifficulty entries) = MAP_DIFFICULTY_RESET_WEEKLY
        \<and> 0 \<le> tm_wday (GetDateAndTime w) \<and> tm_wday (GetDateAndTime w) \<le> 6
        \<and> 0 \<le> tm_hour (GetDateAndTime w) \<and> tm_hour (GetDateAndTime w) \<le> 23
        \<and> 0 \<le> tm_min (GetDateAndTime w) \<and> tm_min (GetDateAndTime w) \<le> 59
        \<and> 0 \<le> tm_sec (GetDateAndTime w) \<and> tm_sec (GetDateAndTime w) \<le> 59
        \<and> 0 \<le> GetIntDefault w ''ResetSchedule.WeeklyDay'' 2
        \<and> GetIntDefault w ''ResetSchedule.WeeklyDay'' 2 \<le> 6
        \<and> 0 \<le> GetIntDefault w ''ResetSchedule.DailyHour'' 9
        \<and> GetIntDefault w ''ResetSchedule.DailyHour'' 9 \<le> 23"
  then have r: "0 \<le> tm_wday now" "tm_wday now \<le> 6" "0 \<le> rd" "rd \<le> 6"
    and t: "0 \<le> tm_hour now" "tm_hour now \<le> 23" "0 \<le> tm_min now" "tm_min now \<le> 59"
       "0 \<le> tm_sec now" "tm_sec now \<le> 59" "0 \<le> h" "h \<le> 23"
    and wk: "ResetInterval (MapDifficulty entries) = MAP_DIFFICULTY_RESET_WEEKLY"
    by (simp_all add: now_def rd_def h_def)
  note wd = weekly_days [OF r, where h = h and hr = "tm_hour now", folded days_def]
  have eq: "GetNextResetTime w entries = from_time_t (mktime w (spec_day_at_hour now days h))"
    using wk
    by (simp add: GetNextResetTime_def GetNextResetTime_dateTime_def spec_day_at_hour_def Let_def
        now_def h_def rd_def days_def)
  have after: "spec_local_seconds now < spec_local_seconds (spec_day_at_hour now days h)"
  proof (cases "days = 0")
    case True
    with wd(4) have "tm_hour now < h" by simp
    with t True show ?thesis
      by (simp add: spec_local_seconds_def spec_day_at_hour_def)
  next
    case False
    with wd(1) have "1 \<le> days" by simp
    with t show ?thesis
      by (simp add: spec_local_seconds_def spec_day_at_hour_def)
  qed
  have least: "spec_local_seconds (spec_day_at_hour now j h) \<le> spec_local_seconds now"
    if "0 \<le> j \<and> j < days \<and> (tm_wday now + j) mod 7 = rd" for j
  proof -
    from that wd(5) [of j] have "j = 0 \<and> tm_wday now = rd \<and> h \<le> tm_hour now" by simp
    with t show ?thesis
      by (simp add: spec_local_seconds_def spec_day_at_hour_def)
  qed
  have seven: "days = 7" if "tm_wday now = rd \<and> h \<le> tm_hour now"
    using that by (simp add: days_def)
  show "\<exists>days.
         GetNextResetTime w entries =
           from_time_t (mktime w (spec_day_at_hour (GetDateAndTime w) days
             (GetIntDefault w ''ResetSchedule.DailyHour'' 9)))
         \<and> 0 \<le> days
         \<and> (tm_wday (GetDateAndTime w) + days) mod 7 = GetIntDefault w ''ResetSchedule.WeeklyDay'' 2
         \<and> spec_local_seconds (GetDateAndTime w)
             < spec_local_seconds (spec_day_at_hour (GetDateAndTime w) days
                 (GetIntDefault w ''ResetSchedule.DailyHour'' 9))
         \<and> (\<forall>j. 0 \<le> j \<and> j < days
                  \<and> (tm_wday (GetDateAndTime w) + j) mod 7
                      = GetIntDefault w ''ResetSchedule.WeeklyDay'' 2
              \<longrightarrow> spec_local_seconds (spec_day_at_hour (GetDateAndTime w) j
                     (GetIntDefault w ''ResetSchedule.DailyHour'' 9))
                   \<le> spec_local_seconds (GetDateAndTime w))
         \<and> (tm_wday (GetDateAndTime w) = GetIntDefault w ''ResetSchedule.WeeklyDay'' 2
              \<and> GetIntDefault w ''ResetSchedule.DailyHour'' 9 \<le> tm_hour (GetDateAndTime w)
              \<longrightarrow> days = 7)"
    using eq wd(1) wd(3) after least seven
    unfolding now_def h_def rd_def by (intro exI [of _ days]) blast
qed

theorem GetNextResetTime_schedule_witness:
  "GetNextResetTime ex_world (ex_entries False True False) = from_time_t 550800
   \<and> GetNextResetTime_dateTime ex_world (ex_entries False True False)
       = ex_now\<lparr>tm_hour := 9, tm_mday := 6\<rparr>
   \<and> GetNextResetTime ex_world
       ((ex_entries False True False)
          \<lparr>MapDifficulty := ex_difficulty MAP_DIFFICULTY_RESET_DAILY True False\<rparr>)
       = from_time_t 550800
   \<and> GetNextResetTime
       (ex_world\<lparr>GetDateAndTime := ex_now\<lparr>tm_wday := 2, tm_mday := 6\<rparr>\<rparr>)
       (ex_entries False True False) = from_time_t (550800 + 604800)"
  using
    GetNextResetTime_schedule [of "ex_entries False True False" ex_world]
    GetNextResetTime_schedule
      [of "(ex_entries False True False)
             \<lparr>MapDifficulty := ex_difficulty MAP_DIFFICULTY_RESET_DAILY True False\<rparr>" ex_world]
    GetNextResetTime_schedule
      [of "ex_entries False True False"
          "ex_world\<lparr>GetDateAndTime := ex_now\<lparr>tm_wday := 2, tm_mday := 6\<rparr>\<rparr>"]
  by (simp add: GetNextResetTime_def GetNextResetTime_dateTime_def GetIntDefault_def ex_defs)

subsection \<open>Stores and destructors: what they leave alone\<close>

lemma FindInstanceLock_LockMap_get:
  "FindInstanceLock locks g entries = LockMap_get locks g (GetKey entries)"
  by (simp add: FindInstanceLock_def LockMap_get_def)

lemma LockMap_get_put_same: "LockMap_get (LockMap_put locks g k l) g k = Some l"
  by (simp add: LockMap_get_def LockMap_put_def update_conv')

lemma LockMap_get_put_other:
  "(g', k') \<noteq> (g, k) \<Longrightarrow> LockMap_get (LockMap_put locks g k l) g' k' = LockMap_get locks g' k'"
  by (auto simp: LockMap_get_def LockMap_put_def update_conv' split: option.splits)

lemma InstanceLock_dtor_frame:
  "instanceLocksByPlayer (InstanceLock_dtor m l) = instanceLocksByPlayer m"
  "temporaryInstanceLocksByPlayer (InstanceLock_dtor m l) = temporaryInstanceLocksByPlayer m"
  "unloading (InstanceLock_dtor m l) = unloading m"
  "next_addr (InstanceLock_dtor m l) = next_addr m"
  "error_log (InstanceLock_dtor m l) = error_log m"
  "registered_instance_ids (InstanceLock_dtor m l) = registered_instance_ids m"
  "obj (heap (InstanceLock_dtor m l) x) = obj (heap m x)"
  by (simp_all add: release_defs split: option.split)

lemma InstanceLock_dtor_unloading:
  "unloading m \<Longrightarrow> instanceLockDataById (InstanceLock_dtor m l) = instanceLockDataById m"
  "unloading m \<Longrightarrow> executed (InstanceLock_dtor m l) = executed m"
  by (simp_all add: release_defs split: option.split)

lemma destroy_locks_frame:
  "instanceLocksByPlayer (destroy_locks m ls) = instanceLocksByPlayer m"
  "temporaryInstanceLocksByPlayer (destroy_locks m ls) = temporaryInstanceLocksByPlayer m"
  "unloading (destroy_locks m ls) = unloading m"
  "error_log (destroy_locks m ls) = error_log m"
  by (induction ls arbitrary: m) (simp_all add: InstanceLock_dtor_frame)

lemma destroy_locks_unloading:
  "unloading m \<Longrightarrow> executed (destroy_locks m ls) = executed m"
  by (induction ls arbitrary: m) (simp_all add: InstanceLock_dtor_frame InstanceLock_dtor_unloading)

lemma temporary_reset_frame:
  "temporaryInstanceLocksByPlayer (temporaryInstanceLocksByPlayer_reset m g k l)
     = LockMap_put (temporaryInstanceLocksByPlayer m) g k l"
  "instanceLocksByPlayer (temporaryInstanceLocksByPlayer_reset m g k l) = instanceLocksByPlayer m"
  "obj (heap (temporaryInstanceLocksByPlayer_reset m g k l) x) = obj (heap m x)"
  by (simp_all add: temporaryInstanceLocksByPlayer_reset_def Let_def InstanceLock_dtor_frame
      split: option.split)

lemma permanent_reset_frame:
  "instanceLocksByPlayer (instanceLocksByPlayer_reset m g k l)
     = LockMap_put (instanceLocksByPlayer m) g k l"
  "temporaryInstanceLocksByPlayer (instanceLocksByPlayer_reset m g k l)
     = temporaryInstanceLocksByPlayer m"
  by (simp_all add: instanceLocksByPlayer_reset_def Let_def InstanceLock_dtor_frame
      split: option.split)

lemma InstanceLock_dtor_zero_id:
  assumes "sharedData old = Some a" "InstanceId (obj (heap m a)) = 0" "a \<noteq> x"
  shows "instanceLockDataById (InstanceLock_dtor m old) = instanceLockDataById m"
    and "heap (InstanceLock_dtor m old) x = heap m x"
  using assms by (simp_all add: release_defs)

subsection \<open>Resurrection of an expired binding\<close>

text \<open>C5. Let \<open>b\<close> be the binding \<^verbatim>\<open>UpdateInstanceLockForPlayer\<close> has found, promoted or created,
  with the update applied, and let it be expired at that point (line 349). If it is not
  extended, the call ends in the failed assertion. If it is extended, the call returns the
  binding with \<open>expiryTime\<close> equal to the next reset time of the entries and \<open>extended\<close>
  false, and that is the permanent binding of the player under the key afterwards.\<close>
theorem UpdateInstanceLockForPlayer_expired_binding:
  assumes "UpdateInstanceLockForPlayer_find w m g entries = (found, m1)"
    and "UpdateInstanceLockForPlayer_bind w m1 g entries ev found = Inr (b, m2)"
    and "IsExpired w (UpdateInstanceLockForPlayer_apply entries ev b)"
  shows "(\<not> extended (UpdateInstanceLockForPlayer_apply entries ev b) \<longrightarrow>
            UpdateInstanceLockForPlayer w m tr g entries ev = Inl AssertionFailed)
       \<and> (extended (UpdateInstanceLockForPlayer_apply entries ev b) \<longrightarrow>
            (\<exists>l m' tr'. UpdateInstanceLockForPlayer w m tr g entries ev = Inr (l, m', tr')
               \<and> l = (UpdateInstanceLockForPlayer_apply entries ev b)
                       \<lparr>expiryTime := GetNextResetTime w entries, extended := False\<rparr>
               \<and> expiryTime l = GetNextResetTime w entries \<and> \<not> extended l
               \<and> FindInstanceLock (instanceLocksByPlayer m') g entries = Some l))"
  using assms
  by (simp add: UpdateInstanceLockForPlayer_def UpdateInstanceLockForPlayer_expired_def
      FindInstanceLock_LockMap_get LockMap_get_put_same)

theorem UpdateInstanceLockForPlayer_expired_binding_witness:
  "(case UpdateInstanceLockForPlayer ex_world
           (ex_mgr [(1, [((100, 7), ex_lock 42 6 1000 True)])] []) []
           1 (ex_entries False True True) ex_event of
      Inl e \<Rightarrow> False
    | Inr (l, m', tr') \<Rightarrow>
        expiryTime l = from_time_t 550800 \<and> \<not> extended l
        \<and> CompletedEncountersMask (data l) = 14
        \<and> FindInstanceLock (instanceLocksByPlayer m') 1 (ex_entries False True True) = Some l)
   \<and> UpdateInstanceLockForPlayer ex_world
        (ex_mgr [] [(1, [((100, 7), ex_lock 0 0 1000 False)])]) []
        1 (ex_entries False True True) ex_event = Inl AssertionFailed"
proof -
  have f1: "UpdateInstanceLockForPlayer_find ex_world
              (ex_mgr [(1, [((100, 7), ex_lock 42 6 1000 True)])] []) 1 (ex_entries False True True)
            = (Some (ex_lock 42 6 1000 True), ex_mgr [(1, [((100, 7), ex_lock 42 6 1000 True)])] [])"
    by (simp add: update_defs find_defs ex_defs)
  have b1: "UpdateInstanceLockForPlayer_bind ex_world
              (ex_mgr [(1, [((100, 7), ex_lock 42 6 1000 True)])] []) 1 (ex_entries False True True)
              ex_event (Some (ex_lock 42 6 1000 True))
            = Inr (ex_lock 42 6 1000 True, ex_mgr [(1, [((100, 7), ex_lock 42 6 1000 True)])] [])"
    by (simp add: update_defs find_defs ex_defs)
  have e1: "IsExpired ex_world
              (UpdateInstanceLockForPlayer_apply (ex_entries False True True) ex_event
                 (ex_lock 42 6 1000 True))"
    by (simp add: update_defs find_defs ex_defs)
  have f2: "UpdateInstanceLockForPlayer_find ex_world
              (ex_mgr [] [(1, [((100, 7), ex_lock 0 0 1000 False)])]) 1 (ex_entries False True True)
            = (Some (ex_lock 0 0 1000 False), ex_mgr [(1, [((100, 7), ex_lock 0 0 1000 False)])] [])"
    by (simp add: update_defs find_defs ex_defs)
  have b2: "UpdateInstanceLockForPlayer_bind ex_world
              (ex_mgr [(1, [((100, 7), ex_lock 0 0 1000 False)])] []) 1 (ex_entries False True True)
              ex_event (Some (ex_lock 0 0 1000 False))
            = Inr (ex_lock 42 0 1000 False, ex_mgr [(1, [((100, 7), ex_lock 0 0 1000 False)])] [])"
    by (simp add: update_defs find_defs ex_defs)
  have e2: "IsExpired ex_world
              (UpdateInstanceLockForPlayer_apply (ex_entries False True True) ex_event
                 (ex_lock 42 0 1000 False))"
    by (simp add: update_defs find_defs ex_defs)
  show ?thesis
    using UpdateInstanceLockForPlayer_expired_binding [OF f1 b1 e1, of "[]"]
      UpdateInstanceLockForPlayer_expired_binding [OF f2 b2 e2, of "[]"]
    by (auto simp: update_defs find_defs ex_defs)
qed

subsection \<open>Unloading\<close>

text \<open>C6, as the claim states it, fails: \<^verbatim>\<open>Unload\<close> does not touch the temporary store. After a
  temporary binding has been created on the fresh manager, the three containers are not all
  empty after \<^verbatim>\<open>Unload\<close>.\<close>
theorem Unload_temporary_counterexample:
  "\<not> (instanceLocksByPlayer
         (Unload (snd (CreateInstanceLockForNewInstance ex_world InstanceLockMgr_ctor 1
                         (ex_entries False True False) 42))) = []
      \<and> temporaryInstanceLocksByPlayer
         (Unload (snd (CreateInstanceLockForNewInstance ex_world InstanceLockMgr_ctor 1
                         (ex_entries False True False) 42))) = []
      \<and> instanceLockDataById
         (Unload (snd (CreateInstanceLockForNewInstance ex_world InstanceLockMgr_ctor 1
                         (ex_entries False True False) 42))) = Map.empty)"
  by (simp add: Unload_def Let_def destroy_locks_frame create_defs ex_defs)

lemma Unload_temporaryInstanceLocksByPlayer:
  "temporaryInstanceLocksByPlayer (Unload m) = temporaryInstanceLocksByPlayer m"
  by (simp add: Unload_def Let_def destroy_locks_frame)

text \<open>C6, amended. For every state of the manager, after \<^verbatim>\<open>Unload\<close> the permanent store and
  the registry of shared records are empty and the unloading flag is set, and no statement at
  all was executed during the teardown (so no \<^verbatim>\<open>DELETE FROM instance2\<close>), because the flag is
  set before the permanent bindings are destroyed.\<close>
theorem Unload_effect:
  "instanceLocksByPlayer (Unload m) = []
   \<and> instanceLockDataById (Unload m) = Map.empty
   \<and> unloading (Unload m)
   \<and> executed (Unload m) = executed m"
  by (simp add: Unload_def Let_def destroy_locks_frame destroy_locks_unloading)

theorem Unload_effect_witness:
  "instanceLocksByPlayer (Unload ex_shared_mgr) = []
   \<and> instanceLockDataById (Unload ex_shared_mgr) 9 = None
   \<and> executed (Unload ex_shared_mgr) = []
   \<and> weak_ptr_expired (Unload ex_shared_mgr) 0
   \<and> unloading (Unload ex_shared_mgr)"
  using Unload_effect [of ex_shared_mgr]
  by (simp add: Unload_def Let_def LockMap_locks_def release_defs weak_ptr_expired_def
      create_defs ex_shared_defs ex_defs)

subsection \<open>The deletion hook\<close>

text \<open>C7. While the manager is not unloading, the deletion hook removes the registry's handle
  for the instance id and executes exactly one \<^verbatim>\<open>DELETE FROM instance2\<close> for it; while it is
  unloading the hook changes nothing. When a binding that is the last owner of a shared record
  with instance id \<open>i\<close> (not zero) is destroyed, the record is destroyed and the hook runs for
  \<open>i\<close>, with these effects; a binding that is not the last owner leaves the record, the
  registry and the database alone.\<close>
theorem shared_record_destroyed:
  "(\<not> unloading m \<longrightarrow>
      instanceLockDataById (OnSharedInstanceLockDataDelete m i) = (instanceLockDataById m)(i := None)
      \<and> executed (OnSharedInstanceLockDataDelete m i) = executed m @ [DELETE_FROM_instance2 i])
   \<and> (unloading m \<longrightarrow> OnSharedInstanceLockDataDelete m i = m)
   \<and> (sharedData b = Some a \<and> use_count (heap m a) = 1 \<and> InstanceId (obj (heap m a)) = i
        \<and> i \<noteq> 0 \<longrightarrow>
        InstanceLock_dtor m b = OnSharedInstanceLockDataDelete (set_use_count m a 0) i
        \<and> weak_ptr_expired (InstanceLock_dtor m b) a
        \<and> (\<not> unloading m \<longrightarrow>
             instanceLockDataById (InstanceLock_dtor m b) = (instanceLockDataById m)(i := None)
             \<and> executed (InstanceLock_dtor m b) = executed m @ [DELETE_FROM_instance2 i])
        \<and> (unloading m \<longrightarrow>
             instanceLockDataById (InstanceLock_dtor m b) = instanceLockDataById m
             \<and> executed (InstanceLock_dtor m b) = executed m))
   \<and> (sharedData b = Some a \<and> 1 < use_count (heap m a) \<longrightarrow>
        \<not> weak_ptr_expired (InstanceLock_dtor m b) a
        \<and> instanceLockDataById (InstanceLock_dtor m b) = instanceLockDataById m
        \<and> executed (InstanceLock_dtor m b) = executed m)"
  by (simp add: release_defs weak_ptr_expired_def)

theorem shared_record_destroyed_witness:
  "executed (InstanceLock_dtor ex_shared_mgr ex_shared_lock) = []
   \<and> instanceLockDataById (InstanceLock_dtor ex_shared_mgr ex_shared_lock) 9 = Some 0
   \<and> use_count (heap (InstanceLock_dtor ex_shared_mgr ex_shared_lock) 0) = 1
   \<and> executed (InstanceLock_dtor (InstanceLock_dtor ex_shared_mgr ex_shared_lock) ex_shared_lock)
       = [DELETE_FROM_instance2 9]
   \<and> instanceLockDataById
        (InstanceLock_dtor (InstanceLock_dtor ex_shared_mgr ex_shared_lock) ex_shared_lock) 9 = None
   \<and> executed (InstanceLock_dtor
        (InstanceLock_dtor (ex_shared_mgr\<lparr>unloading := True\<rparr>) ex_shared_lock) ex_shared_lock) = []
   \<and> instanceLockDataById (InstanceLock_dtor
        (InstanceLock_dtor (ex_shared_mgr\<lparr>unloading := True\<rparr>) ex_shared_lock) ex_shared_lock) 9
       = Some 0"
  using shared_record_destroyed [of ex_shared_mgr 9 ex_shared_lock 0]
    shared_record_destroyed [of "InstanceLock_dtor ex_shared_mgr ex_shared_lock" 9 ex_shared_lock 0]
    shared_record_destroyed
      [of "InstanceLock_dtor (ex_shared_mgr\<lparr>unloading := True\<rparr>) ex_shared_lock" 9 ex_shared_lock 0]
  by (simp add: release_defs weak_ptr_expired_def ex_shared_defs ex_defs)

text \<open>C10. When the last owner of a shared record whose \<open>InstanceId\<close> is 0 is destroyed, the
  hook does not run, whether the manager is unloading or not: no statement is executed, the
  registry is unchanged, and every handle to the record that it holds is expired from then
  on. A record made by \<^verbatim>\<open>CreateInstanceLockForNewInstance\<close> is in this state until a promotion
  assigns its id.\<close>
theorem zero_id_record_destroyed:
  "sharedData b = Some a \<and> use_count (heap m a) = 1 \<and> InstanceId (obj (heap m a)) = 0 \<longrightarrow>
     InstanceLock_dtor m b = set_use_count m a 0
     \<and> executed (InstanceLock_dtor m b) = executed m
     \<and> instanceLockDataById (InstanceLock_dtor m b) = instanceLockDataById m
     \<and> weak_ptr_expired (InstanceLock_dtor m b) a
     \<and> weak_ptr_lock_get (InstanceLock_dtor m b) a = None"
  by (simp add: release_defs weak_ptr_expired_def weak_ptr_lock_get_def)

theorem zero_id_record_destroyed_witness:
  "fst (CreateInstanceLockForNewInstance ex_world InstanceLockMgr_ctor 1
          (ex_entries False True False) 42)
     = Some (SharedInstanceLock_ctor 100 5 (from_time_t 550800) 0 0)
   \<and> InstanceId (obj (heap (snd (CreateInstanceLockForNewInstance ex_world InstanceLockMgr_ctor 1
          (ex_entries False True False) 42)) 0)) = 0
   \<and> use_count (heap (snd (CreateInstanceLockForNewInstance ex_world InstanceLockMgr_ctor 1
          (ex_entries False True False) 42)) 0) = 1
   \<and> executed (InstanceLock_dtor
        (snd (CreateInstanceLockForNewInstance ex_world InstanceLockMgr_ctor 1
                (ex_entries False True False) 42))
        (SharedInstanceLock_ctor 100 5 (from_time_t 550800) 0 0)) = []
   \<and> instanceLockDataById (InstanceLock_dtor
        (snd (CreateInstanceLockForNewInstance ex_world InstanceLockMgr_ctor 1
                (ex_entries False True False) 42))
        (SharedInstanceLock_ctor 100 5 (from_time_t 550800) 0 0)) 42 = Some 0
   \<and> weak_ptr_expired (InstanceLock_dtor
        (snd (CreateInstanceLockForNewInstance ex_world InstanceLockMgr_ctor 1
                (ex_entries False True False) 42))
        (SharedInstanceLock_ctor 100 5 (from_time_t 550800) 0 0)) 0
   \<and> executed
        (snd (CreateInstanceLockForNewInstance ex_world
                (snd (CreateInstanceLockForNewInstance ex_world InstanceLockMgr_ctor 1
                        (ex_entries False True False) 42)) 1
                (ex_entries False True False) 43)) = []
   \<and> instanceLockDataById
        (snd (CreateInstanceLockForNewInstance ex_world
                (snd (CreateInstanceLockForNewInstance ex_world InstanceLockMgr_ctor 1
                        (ex_entries False True False) 42)) 1
                (ex_entries False True False) 43)) 42 = Some 0
   \<and> weak_ptr_expired
        (snd (CreateInstanceLockForNewInstance ex_world
                (snd (CreateInstanceLockForNewInstance ex_world InstanceLockMgr_ctor 1
                        (ex_entries False True False) 42)) 1
                (ex_entries False True False) 43)) 0"
  using zero_id_record_destroyed
    [of "SharedInstanceLock_ctor 100 5 (from_time_t 550800) 0 0" 0
        "snd (CreateInstanceLockForNewInstance ex_world InstanceLockMgr_ctor 1
                (ex_entries False True False) 42)"]
  by (simp add: release_defs weak_ptr_expired_def weak_ptr_lock_get_def create_defs ex_defs)

subsection \<open>Creating a temporary binding\<close>

text \<open>C8. Without a reset schedule \<^verbatim>\<open>CreateInstanceLockForNewInstance\<close> returns nothing and
  leaves the manager as it is. With one it returns a binding with \<open>instanceId = 0\<close>, the next
  reset time as expiry time, \<open>extended = false\<close>, empty data and a zero encounter mask; that
  binding is the temporary binding of the player under the key \<open>(MapID, LockID)\<close> afterwards,
  every other slot of the temporary store and the whole permanent store are as before. For an
  instance-bound dungeon the binding refers to a newly allocated shared record with empty
  data, zero mask and \<open>InstanceId = 0\<close>. In the final state the registry maps the passed
  instance id to that record and the binding is its one owner, provided the binding that was
  replaced (if any, and if it had a shared record) had an allocated record with \<open>InstanceId\<close>
  0, as every temporary binding made by this function has: destroying the replaced binding
  then runs no hook.\<close>
theorem CreateInstanceLockForNewInstance_effect:
  "(\<not> HasResetSchedule (MapDifficulty entries) \<longrightarrow>
      CreateInstanceLockForNewInstance w m g entries i = (None, m))
   \<and> (HasResetSchedule (MapDifficulty entries) \<longrightarrow>
      (\<exists>l m'. CreateInstanceLockForNewInstance w m g entries i = (Some l, m')
         \<and> instanceId l = 0 \<and> expiryTime l = GetNextResetTime w entries \<and> \<not> extended l
         \<and> Data (data l) = [] \<and> CompletedEncountersMask (data l) = 0
         \<and> mapId l = MapID (MapDifficulty entries)
         \<and> difficultyId l = ucast (DifficultyID (MapDifficulty entries))
         \<and> FindInstanceLock (temporaryInstanceLocksByPlayer m') g entries = Some l
         \<and> (\<forall>g' k'. (g', k') \<noteq> (g, GetKey entries) \<longrightarrow>
               LockMap_get (temporaryInstanceLocksByPlayer m') g' k'
                 = LockMap_get (temporaryInstanceLocksByPlayer m) g' k')
         \<and> instanceLocksByPlayer m' = instanceLocksByPlayer m
         \<and> (\<not> IsInstanceIdBound entries \<longrightarrow> sharedData l = None)
         \<and> (IsInstanceIdBound entries \<longrightarrow>
              sharedData l = Some (next_addr m)
              \<and> obj (heap m' (next_addr m)) = SharedInstanceLockData_ctor
              \<and> ((\<forall>old a. LockMap_get (temporaryInstanceLocksByPlayer m) g (GetKey entries) = Some old
                       \<and> sharedData old = Some a
                     \<longrightarrow> a < next_addr m \<and> InstanceId (obj (heap m a)) = 0) \<longrightarrow>
                  instanceLockDataById m' i = Some (next_addr m)
                  \<and> use_count (heap m' (next_addr m)) = 1))))"
proof (intro conjI impI)
  assume "\<not> HasResetSchedule (MapDifficulty entries)"
  then show "CreateInstanceLockForNewInstance w m g entries i = (None, m)"
    by (simp add: CreateInstanceLockForNewInstance_def)
next
  assume sched: "HasResetSchedule (MapDifficulty entries)"
  show "\<exists>l m'. CreateInstanceLockForNewInstance w m g entries i = (Some l, m')
         \<and> instanceId l = 0 \<and> expiryTime l = GetNextResetTime w entries \<and> \<not> extended l
         \<and> Data (data l) = [] \<and> CompletedEncountersMask (data l) = 0
         \<and> mapId l = MapID (MapDifficulty entries)
         \<and> difficultyId l = ucast (DifficultyID (MapDifficulty entries))
         \<and> FindInstanceLock (temporaryInstanceLocksByPlayer m') g entries = Some l
         \<and> (\<forall>g' k'. (g', k') \<noteq> (g, GetKey entries) \<longrightarrow>
               LockMap_get (temporaryInstanceLocksByPlayer m') g' k'
                 = LockMap_get (temporaryInstanceLocksByPlayer m) g' k')
         \<and> instanceLocksByPlayer m' = instanceLocksByPlayer m
         \<and> (\<not> IsInstanceIdBound entries \<longrightarrow> sharedData l = None)
         \<and> (IsInstanceIdBound entries \<longrightarrow>
              sharedData l = Some (next_addr m)
              \<and> obj (heap m' (next_addr m)) = SharedInstanceLockData_ctor
              \<and> ((\<forall>old a. LockMap_get (temporaryInstanceLocksByPlayer m) g (GetKey entries) = Some old
                       \<and> sharedData old = Some a
                     \<longrightarrow> a < next_addr m \<and> InstanceId (obj (heap m a)) = 0) \<longrightarrow>
                  instanceLockDataById m' i = Some (next_addr m)
                  \<and> use_count (heap m' (next_addr m)) = 1))"
  proof (cases "IsInstanceIdBound entries")
    case False
    with sched show ?thesis
      by (simp add: CreateInstanceLockForNewInstance_def Let_def temporary_reset_frame
          FindInstanceLock_LockMap_get LockMap_get_put_same LockMap_get_put_other
          InstanceLock_ctor_def InstanceLockData_ctor_def)
  next
    case True
    define l where
      "l = SharedInstanceLock_ctor (MapID (MapDifficulty entries))
             (ucast (DifficultyID (MapDifficulty entries))) (GetNextResetTime w entries) 0 (next_addr m)"
    define m1 where
      "m1 = m\<lparr>heap := (heap m)(next_addr m := \<lparr>obj = SharedInstanceLockData_ctor, use_count = 1\<rparr>),
              next_addr := Suc (next_addr m),
              instanceLockDataById := (instanceLockDataById m)(i \<mapsto> next_addr m)\<rparr>"
    define m' where "m' = temporaryInstanceLocksByPlayer_reset m1 g (GetKey entries) l"
    have res: "CreateInstanceLockForNewInstance w m g entries i = (Some l, m')"
      using sched True
      by (simp add: CreateInstanceLockForNewInstance_def make_shared_def Let_def l_def m1_def m'_def)
    have fields: "instanceId l = 0" "expiryTime l = GetNextResetTime w entries" "\<not> extended l"
      "Data (data l) = []" "CompletedEncountersMask (data l) = 0"
      "mapId l = MapID (MapDifficulty entries)"
      "difficultyId l = ucast (DifficultyID (MapDifficulty entries))"
      "sharedData l = Some (next_addr m)"
      by (simp_all add: l_def SharedInstanceLock_ctor_def InstanceLock_ctor_def InstanceLockData_ctor_def)
    have temp: "temporaryInstanceLocksByPlayer m'
                  = LockMap_put (temporaryInstanceLocksByPlayer m) g (GetKey entries) l"
      and perm: "instanceLocksByPlayer m' = instanceLocksByPlayer m"
      by (simp_all add: m'_def temporary_reset_frame m1_def)
    have fresh: "obj (heap m' (next_addr m)) = SharedInstanceLockData_ctor"
      by (simp add: m'_def temporary_reset_frame m1_def)
    have shared: "instanceLockDataById m' i = Some (next_addr m)
                  \<and> use_count (heap m' (next_addr m)) = 1"
      if h: "\<forall>old a. LockMap_get (temporaryInstanceLocksByPlayer m) g (GetKey entries) = Some old
                       \<and> sharedData old = Some a
                     \<longrightarrow> a < next_addr m \<and> InstanceId (obj (heap m a)) = 0"
    proof (cases "LockMap_get (temporaryInstanceLocksByPlayer m) g (GetKey entries)")
      case None
      then show ?thesis
        by (simp add: m'_def temporaryInstanceLocksByPlayer_reset_def m1_def)
    next
      case (Some old)
      show ?thesis
      proof (cases "sharedData old")
        case None
        with Some show ?thesis
          by (simp add: m'_def temporaryInstanceLocksByPlayer_reset_def m1_def InstanceLock_dtor_def)
      next
        case (Some a)
        with h \<open>LockMap_get (temporaryInstanceLocksByPlayer m) g (GetKey entries) = Some old\<close>
        have a: "a < next_addr m" "InstanceId (obj (heap m a)) = 0" by auto
        define m2 where
          "m2 = m1\<lparr>temporaryInstanceLocksByPlayer :=
                     LockMap_put (temporaryInstanceLocksByPlayer m1) g (GetKey entries) l\<rparr>"
        have m': "m' = InstanceLock_dtor m2 old"
          using \<open>LockMap_get (temporaryInstanceLocksByPlayer m) g (GetKey entries) = Some old\<close>
          by (simp add: m'_def temporaryInstanceLocksByPlayer_reset_def m1_def m2_def)
        have z: "InstanceId (obj (heap m2 a)) = 0" "a \<noteq> next_addr m"
          using a by (simp_all add: m2_def m1_def)
        show ?thesis
          unfolding m' using InstanceLock_dtor_zero_id [OF Some z]
          by (simp add: m2_def m1_def)
      qed
    qed
    show ?thesis
      using res fields temp perm fresh shared True
      by (simp add: FindInstanceLock_LockMap_get LockMap_get_put_same LockMap_get_put_other)
  qed
qed

theorem CreateInstanceLockForNewInstance_effect_witness:
  "CreateInstanceLockForNewInstance ex_world InstanceLockMgr_ctor 1 (ex_entries False False False) 42
     = (None, InstanceLockMgr_ctor)
   \<and> fst (CreateInstanceLockForNewInstance ex_world InstanceLockMgr_ctor 1
          (ex_entries False True False) 42)
     = Some (SharedInstanceLock_ctor 100 5 (from_time_t 550800) 0 0)
   \<and> temporaryInstanceLocksByPlayer
        (snd (CreateInstanceLockForNewInstance ex_world InstanceLockMgr_ctor 1
                (ex_entries False True False) 42))
     = [(1, [((100, 7), SharedInstanceLock_ctor 100 5 (from_time_t 550800) 0 0)])]
   \<and> instanceLockDataById
        (snd (CreateInstanceLockForNewInstance ex_world InstanceLockMgr_ctor 1
                (ex_entries False True False) 42)) 42 = Some 0
   \<and> temporaryInstanceLocksByPlayer
        (snd (CreateInstanceLockForNewInstance ex_world
                (ex_mgr [] [(1, [((100, 7), ex_lock 0 0 1000 False)])]) 1
                (ex_entries False True True) 43))
     = [(1, [((100, 7), InstanceLock_ctor 100 5 (from_time_t 550800) 0)])]
   \<and> LockMap_get (temporaryInstanceLocksByPlayer
        (snd (CreateInstanceLockForNewInstance ex_world InstanceLockMgr_ctor 1
                (ex_entries False True False) 42))) 1 (100, 7)
     = Some (SharedInstanceLock_ctor 100 5 (from_time_t 550800) 0 0)
   \<and> next_addr (snd (CreateInstanceLockForNewInstance ex_world InstanceLockMgr_ctor 1
                (ex_entries False True False) 42)) = 1
   \<and> temporaryInstanceLocksByPlayer
        (snd (CreateInstanceLockForNewInstance ex_world
                (snd (CreateInstanceLockForNewInstance ex_world InstanceLockMgr_ctor 1
                        (ex_entries False True False) 42)) 1
                (ex_entries False True False) 43))
     = [(1, [((100, 7), SharedInstanceLock_ctor 100 5 (from_time_t 550800) 0 1)])]
   \<and> instanceLockDataById
        (snd (CreateInstanceLockForNewInstance ex_world
                (snd (CreateInstanceLockForNewInstance ex_world InstanceLockMgr_ctor 1
                        (ex_entries False True False) 42)) 1
                (ex_entries False True False) 43)) 43 = Some 1
   \<and> use_count (heap
        (snd (CreateInstanceLockForNewInstance ex_world
                (snd (CreateInstanceLockForNewInstance ex_world InstanceLockMgr_ctor 1
                        (ex_entries False True False) 42)) 1
                (ex_entries False True False) 43)) 1) = 1"
  using CreateInstanceLockForNewInstance_effect
      [of "ex_entries False False False" ex_world InstanceLockMgr_ctor 1 42]
    CreateInstanceLockForNewInstance_effect
      [of "ex_entries False True False" ex_world InstanceLockMgr_ctor 1 42]
    CreateInstanceLockForNewInstance_effect
      [of "ex_entries False True True" ex_world
          "ex_mgr [] [(1, [((100, 7), ex_lock 0 0 1000 False)])]" 1 43]
    CreateInstanceLockForNewInstance_effect
      [of "ex_entries False True False" ex_world
          "snd (CreateInstanceLockForNewInstance ex_world InstanceLockMgr_ctor 1
                  (ex_entries False True False) 42)" 1 43]
  by (simp add: create_defs release_defs ex_defs)

subsection \<open>Loading\<close>

lemma Load_store_frame:
  "instanceLocksByPlayer (Load_store m r l)
     = LockMap_put (instanceLocksByPlayer m) (row_guid r) (row_mapId r, row_lockId r)
         (l\<lparr>data := (data l)\<lparr>Data := row_data r,
                               CompletedEncountersMask := row_completedEncountersMask r\<rparr>,
            extended := row_extended r\<rparr>)"
  by (simp add: Load_store_def Let_def permanent_reset_frame)

lemma InstanceLock_dtor_use_count:
  "use_count (heap (InstanceLock_dtor m l) x)
     = (if sharedData l = Some x then use_count (heap m x) - 1 else use_count (heap m x))"
  by (auto simp: release_defs split: option.split)

lemma permanent_reset_use_count:
  "use_count (heap (instanceLocksByPlayer_reset m g k l) x)
     = (case LockMap_get (instanceLocksByPlayer m) g k of
          None \<Rightarrow> use_count (heap m x)
        | Some old \<Rightarrow> if sharedData old = Some x then use_count (heap m x) - 1
                      else use_count (heap m x))"
  by (simp add: instanceLocksByPlayer_reset_def Let_def InstanceLock_dtor_use_count
      split: option.split)

text \<open>C9. Take a per-player row whose map and difficulty are in the catalog and are
  instance-bound. If the index of loaded shared records has no record for the row's instance
  id, \<^verbatim>\<open>Load\<close> logs the error, executes the \<^verbatim>\<open>DELETE FROM character_instance_lock\<close> for that
  instance id, builds no binding (both stores and the heap are unchanged) and goes on with the
  remaining rows. If the index has a record, the row produces the permanent binding of the
  player under \<open>(mapId, lockId)\<close>; it refers to that record as an owner: the record's owner
  count grows by one (when the slot held no binding before) and the record stays alive.\<close>
theorem Load_lock_row_shared_record:
  assumes "MapDb2Entries_ctor w (row_mapId r) (row_difficulty r) = Inr entries"
    and "IsInstanceIdBound entries"
  shows "(map_of idx (row_instanceId r) = None \<longrightarrow>
            Load_lock_row w idx m r =
              Inr (m\<lparr>registered_instance_ids := registered_instance_ids m @ [row_instanceId r],
                     error_log := error_log m @ [LOG_ERROR_Missing_instance_data (row_instanceId r)],
                     executed := executed m
                       @ [DELETE_FROM_character_instance_lock_WHERE_instanceId (row_instanceId r)]\<rparr>)
            \<and> (\<exists>m'. Load_lock_row w idx m r = Inr m'
                  \<and> instanceLocksByPlayer m' = instanceLocksByPlayer m
                  \<and> temporaryInstanceLocksByPlayer m' = temporaryInstanceLocksByPlayer m
                  \<and> heap m' = heap m
                  \<and> Load_lock_rows w idx m (r # rs) = Load_lock_rows w idx m' rs))
       \<and> (map_of idx (row_instanceId r) = Some a \<longrightarrow>
            (\<exists>m' l. Load_lock_row w idx m r = Inr m'
               \<and> LockMap_get (instanceLocksByPlayer m') (row_guid r) (row_mapId r, row_lockId r)
                    = Some l
               \<and> sharedData l = Some a
               \<and> instanceId l = row_instanceId r
               \<and> error_log m' = error_log m
               \<and> (0 < use_count (heap m a) \<longrightarrow> 0 < use_count (heap m' a))
               \<and> (LockMap_get (instanceLocksByPlayer m) (row_guid r) (row_mapId r, row_lockId r)
                     = None \<longrightarrow> use_count (heap m' a) = Suc (use_count (heap m a)))))"
proof (intro conjI impI)
  assume "map_of idx (row_instanceId r) = None"
  then show "Load_lock_row w idx m r =
              Inr (m\<lparr>registered_instance_ids := registered_instance_ids m @ [row_instanceId r],
                     error_log := error_log m @ [LOG_ERROR_Missing_instance_data (row_instanceId r)],
                     executed := executed m
                       @ [DELETE_FROM_character_instance_lock_WHERE_instanceId (row_instanceId r)]\<rparr>)"
    using assms by (simp add: Load_lock_row_def Let_def)
  then show "\<exists>m'. Load_lock_row w idx m r = Inr m'
                  \<and> instanceLocksByPlayer m' = instanceLocksByPlayer m
                  \<and> temporaryInstanceLocksByPlayer m' = temporaryInstanceLocksByPlayer m
                  \<and> heap m' = heap m
                  \<and> Load_lock_rows w idx m (r # rs) = Load_lock_rows w idx m' rs"
    by simp
next
  assume a: "map_of idx (row_instanceId r) = Some a"
  define l0 where
    "l0 = SharedInstanceLock_ctor (row_mapId r) (row_difficulty r)
            (from_time_t (sint (row_expiryTime r))) (row_instanceId r) a"
  define m0 where
    "m0 = (shared_ptr_copy
             (m\<lparr>registered_instance_ids := registered_instance_ids m @ [row_instanceId r]\<rparr>) a)
          \<lparr>instanceLockDataById := (instanceLockDataById m)(row_instanceId r \<mapsto> a)\<rparr>"
  have res: "Load_lock_row w idx m r = Inr (Load_store m0 r l0)"
    using assms a
    by (simp add: Load_lock_row_def Let_def l0_def m0_def shared_ptr_copy_def set_use_count_def)
  have perm: "instanceLocksByPlayer m0 = instanceLocksByPlayer m"
    and cnt: "use_count (heap m0 a) = Suc (use_count (heap m a))"
    by (simp_all add: m0_def shared_ptr_copy_def set_use_count_def)
  have log: "error_log (Load_store m0 r l0) = error_log m"
    by (simp add: Load_store_def Let_def instanceLocksByPlayer_reset_def InstanceLock_dtor_frame
        m0_def shared_ptr_copy_def set_use_count_def split: option.split)
  have uc: "use_count (heap (Load_store m0 r l0) x)
              = (case LockMap_get (instanceLocksByPlayer m) (row_guid r) (row_mapId r, row_lockId r) of
                   None \<Rightarrow> use_count (heap m0 x)
                 | Some old \<Rightarrow> if sharedData old = Some x then use_count (heap m0 x) - 1
                               else use_count (heap m0 x))" for x
    by (simp add: Load_store_def Let_def permanent_reset_use_count perm)
  show "\<exists>m' l. Load_lock_row w idx m r = Inr m'
               \<and> LockMap_get (instanceLocksByPlayer m') (row_guid r) (row_mapId r, row_lockId r)
                    = Some l
               \<and> sharedData l = Some a
               \<and> instanceId l = row_instanceId r
               \<and> error_log m' = error_log m
               \<and> (0 < use_count (heap m a) \<longrightarrow> 0 < use_count (heap m' a))
               \<and> (LockMap_get (instanceLocksByPlayer m) (row_guid r) (row_mapId r, row_lockId r)
                     = None \<longrightarrow> use_count (heap m' a) = Suc (use_count (heap m a)))"
  proof (intro exI conjI impI)
    show "Load_lock_row w idx m r = Inr (Load_store m0 r l0)" by (rule res)
    show "LockMap_get (instanceLocksByPlayer (Load_store m0 r l0)) (row_guid r)
            (row_mapId r, row_lockId r)
          = Some (l0\<lparr>data := (data l0)\<lparr>Data := row_data r,
                        CompletedEncountersMask := row_completedEncountersMask r\<rparr>,
                      extended := row_extended r\<rparr>)"
      by (simp add: Load_store_frame LockMap_get_put_same)
    show "sharedData (l0\<lparr>data := (data l0)\<lparr>Data := row_data r,
                        CompletedEncountersMask := row_completedEncountersMask r\<rparr>,
                      extended := row_extended r\<rparr>) = Some a"
      by (simp add: l0_def SharedInstanceLock_ctor_def)
    show "instanceId (l0\<lparr>data := (data l0)\<lparr>Data := row_data r,
                        CompletedEncountersMask := row_completedEncountersMask r\<rparr>,
                      extended := row_extended r\<rparr>) = row_instanceId r"
      by (simp add: l0_def SharedInstanceLock_ctor_def InstanceLock_ctor_def)
    show "error_log (Load_store m0 r l0) = error_log m" by (rule log)
    show "0 < use_count (heap (Load_store m0 r l0) a)" if "0 < use_count (heap m a)"
      using that by (simp add: uc cnt split: option.split)
    show "use_count (heap (Load_store m0 r l0) a) = Suc (use_count (heap m a))"
      if "LockMap_get (instanceLocksByPlayer m) (row_guid r) (row_mapId r, row_lockId r) = None"
      using that by (simp add: uc cnt)
  qed
qed

theorem Load_lock_row_shared_record_witness:
  "(case Load ex_world InstanceLockMgr_ctor [ex_instance_row] [ex_row 77, ex_row 9] of
      Inl e \<Rightarrow> False
    | Inr m' \<Rightarrow>
        error_log m' = [LOG_ERROR_Missing_instance_data 77]
        \<and> executed m' = [DELETE_FROM_character_instance_lock_WHERE_instanceId 77]
        \<and> map (map fst \<circ> snd) (instanceLocksByPlayer m') = [[(100, 7)]]
        \<and> map_option sharedData (LockMap_get (instanceLocksByPlayer m') 1 (100, 7)) = Some (Some 0)
        \<and> map_option instanceId (LockMap_get (instanceLocksByPlayer m') 1 (100, 7)) = Some 9
        \<and> use_count (heap m' 0) = 1
        \<and> instanceLockDataById m' 9 = Some 0)"
proof -
  have e: "MapDb2Entries_ctor ex_world (row_mapId (ex_row i)) (row_difficulty (ex_row i))
             = Inr (ex_entries False True False)" for i
    by (simp add: load_defs ex_defs)
  have b: "IsInstanceIdBound (ex_entries False True False)"
    by (simp add: load_defs ex_defs)
  show ?thesis
    using
      Load_lock_row_shared_record
        [where r = "ex_row 77" and idx = "[(9, 0)]" and rs = "[ex_row 9]" and a = 0, OF e b]
      Load_lock_row_shared_record
        [where r = "ex_row 9" and idx = "[(9, 0)]" and rs = "[]" and a = 0, OF e b]
    by (simp add: load_defs release_defs ex_defs)
qed

end
